theory Spec2Isabelle
  imports Main
begin

section \<open>The document tree the script reads\<close>

text \<open>
  The script \<^verbatim>\<open>elementtocsvtool.js\<close> runs in a browser console against the loaded
  page. A JavaScript string is modelled as a \<^typ>\<open>string\<close> whose characters are its
  code units, restricted to the range U+0000..U+00FF; \<^verbatim>\<open>length\<close> and
  \<^verbatim>\<open>substring\<close> count code units, as \<^const>\<open>length\<close> and \<^const>\<open>take\<close> count characters.
\<close>

text \<open>
  \<^verbatim>\<open>element.className\<close> is a string on an HTML element and an object
  (\<^verbatim>\<open>SVGAnimatedString\<close>) on an SVG element, which \<^verbatim>\<open>querySelectorAll('a')\<close> can
  return as well; the script tests \<^verbatim>\<open>typeof element.className === 'string'\<close>.
\<close>

datatype js_class = ClassString string | ClassObject

text \<open>
  What the script reads of one element: the properties \<^verbatim>\<open>tagName\<close>, \<^verbatim>\<open>id\<close>,
  \<^verbatim>\<open>className\<close>, \<^verbatim>\<open>type\<close>, \<^verbatim>\<open>value\<close> and \<^verbatim>\<open>placeholder\<close> (a property that is
  absent or \<^verbatim>\<open>undefined\<close> reads as the empty string, which is falsy like it), and
  the attributes \<^verbatim>\<open>type\<close> and \<^verbatim>\<open>for\<close> that its selectors test
  (\<open>None\<close> when the attribute is absent). \<open>elOptions\<close> is what the script reads of
  \<^verbatim>\<open>element.options\<close>: the \<^verbatim>\<open>textContent\<close> of each entry of that collection, in
  its order. Which \<^verbatim>\<open>option\<close> elements below a select belong to the collection is the
  browser's decision (it holds options nested in other elements too), so the
  collection is taken as the browser gives it; it is empty when the select has no
  option.
\<close>

record elem =
  tagName :: string
  elId :: string
  className :: js_class
  elType :: string
  elValue :: string
  placeholder :: string
  attrType :: "string option"
  attrFor :: "string option"
  elOptions :: "string list"

text \<open>
  A node of the tree: an element with its \<^verbatim>\<open>childNodes\<close>, a text node
  (\<^verbatim>\<open>nodeType === Node.TEXT_NODE\<close>) or a comment.
\<close>

datatype node = Element elem "node list" | TextNode string | CommentNode string

type_synonym element = "elem \<times> node list"

text \<open>
  The document: its \<^verbatim>\<open>title\<close> and the child nodes of \<^verbatim>\<open>document.body\<close>. The
  \<^verbatim>\<open>html\<close>, \<^verbatim>\<open>head\<close> and \<^verbatim>\<open>body\<close> elements themselves match none of the
  script's selectors.
\<close>

record document =
  title :: string
  body :: "node list"

subsection \<open>String primitives\<close>

definition dq :: char where
  "dq = CHR 0x22"

definition nl :: char where
  "nl = CHR 0x0A"

text \<open>White space and line terminators that \<^verbatim>\<open>String.prototype.trim\<close> strips.\<close>

definition isWhiteSpace :: "char \<Rightarrow> bool" where
  "isWhiteSpace c = (of_char c \<in> {9, 10, 11, 12, 13, 32, 160 :: nat})"

definition trim :: "string \<Rightarrow> string" where
  "trim s = rev (dropWhile isWhiteSpace (rev (dropWhile isWhiteSpace s)))"

definition lowerChar :: "char \<Rightarrow> char" where
  "lowerChar c =
     (let n = (of_char c :: nat)
      in if (65 \<le> n \<and> n \<le> 90) \<or> (192 \<le> n \<and> n \<le> 222 \<and> n \<noteq> 215)
         then char_of (n + 32) else c)"

definition toLowerCase :: "string \<Rightarrow> string" where
  "toLowerCase s = map lowerChar s"

text \<open>The JavaScript \<^verbatim>\<open>a || b\<close> on strings: the empty string is falsy.\<close>

definition orElse :: "string \<Rightarrow> string \<Rightarrow> string" where
  "orElse a b = (if a \<noteq> [] then a else b)"

text \<open>\<^verbatim>\<open>xs.join(sep)\<close>\<close>

fun join :: "string \<Rightarrow> string list \<Rightarrow> string" where
  "join sep [] = []"
| "join sep [x] = x"
| "join sep (x # y # ys) = x @ sep @ join sep (y # ys)"

text \<open>\<^verbatim>\<open>t.length > 100 ? t.substring(0, 100) + '...' : t\<close>\<close>

definition truncate100 :: "string \<Rightarrow> string" where
  "truncate100 t = (if length t > 100 then take 100 t @ ''...'' else t)"

subsection \<open>Tree queries\<close>

text \<open>
  \<^verbatim>\<open>node.textContent\<close>: the data of a text node or comment; for an element the
  concatenated data of its text-node descendants in tree order (comments excluded).
\<close>

fun textContent :: "node \<Rightarrow> string" where
  "textContent (Element e cs) =
     concat (map textContent (filter (\<lambda>c. case c of CommentNode _ \<Rightarrow> False | _ \<Rightarrow> True) cs))"
| "textContent (TextNode s) = s"
| "textContent (CommentNode s) = s"

definition elementText :: "element \<Rightarrow> string" where
  "elementText x = textContent (Element (fst x) (snd x))"

text \<open>An element and its element descendants, in tree order.\<close>

fun elementsOf :: "node \<Rightarrow> element list" where
  "elementsOf (Element e cs) = (e, cs) # concat (map elementsOf cs)"
| "elementsOf (TextNode s) = []"
| "elementsOf (CommentNode s) = []"

definition allElements :: "document \<Rightarrow> element list" where
  "allElements doc = concat (map elementsOf (body doc))"

definition descendants :: "element \<Rightarrow> element list" where
  "descendants x = concat (map elementsOf (snd x))"

text \<open>
  The compound selectors the script uses: a type selector \<^verbatim>\<open>tag\<close>, or
  \<^verbatim>\<open>tag[type="v"]\<close>. A type selector matches an element's name regardless of the
  case \<^verbatim>\<open>tagName\<close> reports it in, and HTML compares the value of a \<^verbatim>\<open>type\<close>
  attribute case-insensitively.
\<close>

datatype selector = Tag string | TagType string string

fun matches :: "elem \<Rightarrow> selector \<Rightarrow> bool" where
  "matches e (Tag t) = (toLowerCase (tagName e) = t)"
| "matches e (TagType t v) =
     (toLowerCase (tagName e) = t \<and>
      (case attrType e of None \<Rightarrow> False | Some a \<Rightarrow> toLowerCase a = v))"

definition matchesAny :: "selector list \<Rightarrow> element \<Rightarrow> bool" where
  "matchesAny sels x = list_ex (matches (fst x)) sels"

text \<open>\<^verbatim>\<open>document.querySelectorAll(sels)\<close> and \<^verbatim>\<open>element.querySelectorAll(sels)\<close>\<close>

definition querySelectorAll :: "document \<Rightarrow> selector list \<Rightarrow> element list" where
  "querySelectorAll doc sels = filter (matchesAny sels) (allElements doc)"

definition elementQuerySelectorAll :: "element \<Rightarrow> selector list \<Rightarrow> element list" where
  "elementQuerySelectorAll x sels = filter (matchesAny sels) (descendants x)"

text \<open>
  A failed run. The script builds the selector \<^verbatim>\<open>label[for="${id}"]\<close> by pasting the
  id, unescaped, into a quoted CSS string. When the id holds a character that CSS
  reads specially there (the quote, the backslash, a line break, or NUL) the
  browser does not run the query the script means. For some ids it throws
  \<^verbatim>\<open>SyntaxError\<close>, which ends the script (id \<^verbatim>\<open>a"b\<close>); for others it completes with
  another result: for \<^verbatim>\<open>a\b\<close> it decodes an escape and finds no label, for
  \<^verbatim>\<open>a"],p[x="\<close> it reads a list of two selectors and may return an element that is
  no label. The model does not follow the browser there: it stops every such
  query with \<open>SelectorFault\<close>. What is proved of a completed run or pass is therefore
  proved of the documents whose queried ids are free of these characters
  (\<open>cssPlain\<close>), and nothing is said of the others.
\<close>

datatype fault = SelectorFault

definition cssSpecial :: "char \<Rightarrow> bool" where
  "cssSpecial c = (of_char c \<in> {0, 10, 12, 13, 34, 92 :: nat})"

definition cssPlain :: "string \<Rightarrow> bool" where
  "cssPlain s = (\<not> list_ex cssSpecial s)"

definition isLabelFor :: "string \<Rightarrow> element \<Rightarrow> bool" where
  "isLabelFor i x = (toLowerCase (tagName (fst x)) = ''label'' \<and> attrFor (fst x) = Some i)"

text \<open>\<^verbatim>\<open>document.querySelector(`label[for="${i}"]`)\<close>: the first match in tree order, or null.\<close>

definition queryLabelFor :: "document \<Rightarrow> string \<Rightarrow> fault + element option" where
  "queryLabelFor doc i =
     (if cssPlain i then Inr (find (isLabelFor i) (allElements doc)) else Inl SelectorFault)"

section \<open>The script\<close>

subsection \<open>getElementIdentifier\<close>

text \<open>The object \<^verbatim>\<open>{ type, value }\<close> that \<^verbatim>\<open>getElementIdentifier\<close> returns.\<close>

record ident =
  ident_type :: string
  ident_value :: string

definition getElementIdentifier :: "elem \<Rightarrow> ident" where
  "getElementIdentifier e =
     (if elId e \<noteq> [] then \<lparr>ident_type = ''id'', ident_value = elId e\<rparr>
      else (case className e of
              ClassString c \<Rightarrow>
                if c \<noteq> [] \<and> trim c \<noteq> []
                then \<lparr>ident_type = ''class'', ident_value = trim c\<rparr>
                else \<lparr>ident_type = ''none'', ident_value = ''no-id-or-class''\<rparr>
            | ClassObject \<Rightarrow> \<lparr>ident_type = ''none'', ident_value = ''no-id-or-class''\<rparr>))"

subsection \<open>getElementText\<close>

text \<open>Sequencing of steps that can fail: a fault ends the script.\<close>

definition andThen :: "fault + 'a \<Rightarrow> ('a \<Rightarrow> fault + 'b) \<Rightarrow> fault + 'b" where
  "andThen m f = (case m of Inl e \<Rightarrow> Inl e | Inr v \<Rightarrow> f v)"

definition getElementText :: "document \<Rightarrow> element \<Rightarrow> fault + string" where
  "getElementText doc x =
     (let e = fst x in
      if tagName e = ''INPUT'' then
        (if elType e = ''button'' \<or> elType e = ''submit'' then
           Inr (orElse (orElse (elValue e) (placeholder e)) (''['' @ elType e @ '' button]''))
         else if elType e = ''checkbox'' \<or> elType e = ''radio'' then
           andThen (queryLabelFor doc (elId e)) (\<lambda>label.
             Inr (case label of
                    Some l \<Rightarrow> trim (elementText l)
                  | None \<Rightarrow> ''['' @ elType e @ '']''))
         else
           Inr (orElse (placeholder e) (''['' @ elType e @ '' input]'')))
      else if tagName e = ''SELECT'' then
        andThen (queryLabelFor doc (elId e)) (\<lambda>label.
          case label of
            Some l \<Rightarrow> Inr (trim (elementText l))
          | None \<Rightarrow>
              (let options = join '', '' (map (\<lambda>opt. trim opt) (elOptions e))
               in Inr (truncate100 options)))
      else if tagName e = ''BUTTON'' then
        Inr (orElse (trim (elementText x)) ''[button]'')
      else if tagName e = ''A'' then
        Inr (orElse (trim (elementText x)) ''[link]'')
      else
        (let text = trim (elementText x)
         in Inr (truncate100 text)))"

subsection \<open>The collection passes\<close>

text \<open>One entry of the array \<^verbatim>\<open>elementsData\<close>.\<close>

record elementData =
  element_type :: string
  text_content :: string
  selector_type :: string
  selector_value :: string

definition push :: "elementData list \<Rightarrow> elementData \<Rightarrow> elementData list" where
  "push elementsData item = elementsData @ [item]"

text \<open>
  \<^verbatim>\<open>xs.forEach(f)\<close> where \<open>f\<close> updates the array \<^verbatim>\<open>elementsData\<close>; a fault in one
  call ends the loop and the script.
\<close>

fun forEach ::
  "('a \<Rightarrow> elementData list \<Rightarrow> fault + elementData list) \<Rightarrow> 'a list \<Rightarrow>
   elementData list \<Rightarrow> fault + elementData list" where
  "forEach f [] elementsData = Inr elementsData"
| "forEach f (x # xs) elementsData =
     (case f x elementsData of
        Inl e \<Rightarrow> Inl e
      | Inr elementsData' \<Rightarrow> forEach f xs elementsData')"

text \<open>\<^verbatim>\<open>`[type="${t}"]`\<close>\<close>

definition typeSuffix :: "string \<Rightarrow> string" where
  "typeSuffix t = ''[type='' @ [dq] @ t @ [dq] @ '']''"

definition buttonsSel :: "selector list" where
  "buttonsSel = [Tag ''button'', TagType ''input'' ''button'', TagType ''input'' ''submit'']"

definition buttonStep ::
  "document \<Rightarrow> element \<Rightarrow> elementData list \<Rightarrow> fault + elementData list" where
  "buttonStep doc button elementsData =
     (let identifier = getElementIdentifier (fst button) in
      andThen (getElementText doc button) (\<lambda>text.
        if text \<noteq> [] then
          Inr (push elementsData
            \<lparr>element_type = toLowerCase (tagName (fst button)) @
               (if elType (fst button) \<noteq> [] then typeSuffix (elType (fst button)) else []),
             text_content = text,
             selector_type = ident_type identifier,
             selector_value = ident_value identifier\<rparr>)
        else Inr elementsData))"

definition inputsSel :: "selector list" where
  "inputsSel =
     [TagType ''input'' ''text'', TagType ''input'' ''password'', TagType ''input'' ''email'',
      TagType ''input'' ''number'', TagType ''input'' ''search'', TagType ''input'' ''tel'',
      TagType ''input'' ''url'', Tag ''textarea'']"

definition inputStep ::
  "document \<Rightarrow> element \<Rightarrow> elementData list \<Rightarrow> fault + elementData list" where
  "inputStep doc input elementsData =
     (let identifier = getElementIdentifier (fst input) in
      andThen (queryLabelFor doc (elId (fst input))) (\<lambda>label.
      andThen (case label of
                 Some l \<Rightarrow> Inr (trim (elementText l))
               | None \<Rightarrow> getElementText doc input) (\<lambda>text.
        if text \<noteq> [] then
          Inr (push elementsData
            \<lparr>element_type = toLowerCase (tagName (fst input)) @
               (if elType (fst input) \<noteq> [] then typeSuffix (elType (fst input)) else []),
             text_content = text,
             selector_type = ident_type identifier,
             selector_value = ident_value identifier\<rparr>)
        else Inr elementsData)))"

definition checkboxesAndRadiosSel :: "selector list" where
  "checkboxesAndRadiosSel = [TagType ''input'' ''checkbox'', TagType ''input'' ''radio'']"

definition checkboxStep ::
  "document \<Rightarrow> element \<Rightarrow> elementData list \<Rightarrow> fault + elementData list" where
  "checkboxStep doc input elementsData =
     (let identifier = getElementIdentifier (fst input) in
      andThen (queryLabelFor doc (elId (fst input))) (\<lambda>label.
      andThen (case label of
                 Some l \<Rightarrow> Inr (trim (elementText l))
               | None \<Rightarrow> getElementText doc input) (\<lambda>text.
        if text \<noteq> [] then
          Inr (push elementsData
            \<lparr>element_type = toLowerCase (tagName (fst input)) @ typeSuffix (elType (fst input)),
             text_content = text,
             selector_type = ident_type identifier,
             selector_value = ident_value identifier\<rparr>)
        else Inr elementsData)))"

definition selectStep ::
  "document \<Rightarrow> element \<Rightarrow> elementData list \<Rightarrow> fault + elementData list" where
  "selectStep doc select elementsData =
     (let identifier = getElementIdentifier (fst select) in
      andThen (getElementText doc select) (\<lambda>text.
        if text \<noteq> [] then
          Inr (push elementsData
            \<lparr>element_type = ''select'',
             text_content = text,
             selector_type = ident_type identifier,
             selector_value = ident_value identifier\<rparr>)
        else Inr elementsData))"

definition linkStep ::
  "document \<Rightarrow> element \<Rightarrow> elementData list \<Rightarrow> fault + elementData list" where
  "linkStep doc link elementsData =
     (let identifier = getElementIdentifier (fst link) in
      andThen (getElementText doc link) (\<lambda>text.
        if text \<noteq> [] \<and> text \<noteq> ''[link]'' then
          Inr (push elementsData
            \<lparr>element_type = ''a'',
             text_content = text,
             selector_type = ident_type identifier,
             selector_value = ident_value identifier\<rparr>)
        else Inr elementsData))"

definition headingsSel :: "selector list" where
  "headingsSel = [Tag ''h1'', Tag ''h2'', Tag ''h3'', Tag ''h4'', Tag ''h5'', Tag ''h6'']"

definition headingStep ::
  "element \<Rightarrow> elementData list \<Rightarrow> fault + elementData list" where
  "headingStep heading elementsData =
     (let identifier = getElementIdentifier (fst heading);
          text = trim (elementText heading)
      in if text \<noteq> [] then
           Inr (push elementsData
             \<lparr>element_type = toLowerCase (tagName (fst heading)),
              text_content = text,
              selector_type = ident_type identifier,
              selector_value = ident_value identifier\<rparr>)
         else Inr elementsData)"

definition staticTextsSel :: "selector list" where
  "staticTextsSel = [Tag ''p'', Tag ''span'', Tag ''div'', Tag ''label'']"

definition importantSel :: "selector list" where
  "importantSel =
     [Tag ''button'', Tag ''input'', Tag ''select'', Tag ''a'',
      Tag ''h1'', Tag ''h2'', Tag ''h3'', Tag ''h4'', Tag ''h5'', Tag ''h6'']"

definition hasDirectText :: "element \<Rightarrow> bool" where
  "hasDirectText x =
     list_ex (\<lambda>n. case n of TextNode s \<Rightarrow> trim s \<noteq> [] | _ \<Rightarrow> False) (snd x)"

definition staticTextStep ::
  "element \<Rightarrow> elementData list \<Rightarrow> fault + elementData list" where
  "staticTextStep element elementsData =
     (if hasDirectText element then
        (let identifier = getElementIdentifier (fst element);
             text = trim (elementText element)
         in if text \<noteq> [] \<and> length text > 0 \<and> length text < 200 then
              (let containsImportantElements =
                     (length (elementQuerySelectorAll element importantSel) > 0)
               in if \<not> containsImportantElements then
                    Inr (push elementsData
                      \<lparr>element_type = toLowerCase (tagName (fst element)),
                       text_content = text,
                       selector_type = ident_type identifier,
                       selector_value = ident_value identifier\<rparr>)
                  else Inr elementsData)
            else Inr elementsData)
      else Inr elementsData)"

definition tableHeaderStep ::
  "element \<Rightarrow> elementData list \<Rightarrow> fault + elementData list" where
  "tableHeaderStep th elementsData =
     (let identifier = getElementIdentifier (fst th);
          text = trim (elementText th)
      in if text \<noteq> [] then
           Inr (push elementsData
             \<lparr>element_type = ''th'',
              text_content = text,
              selector_type = ident_type identifier,
              selector_value = ident_value identifier\<rparr>)
         else Inr elementsData)"

text \<open>The eight passes in the script's order, all pushing to one array.\<close>

definition collect :: "document \<Rightarrow> fault + elementData list" where
  "collect doc =
     andThen (forEach (buttonStep doc) (querySelectorAll doc buttonsSel) []) (\<lambda>d1.
     andThen (forEach (inputStep doc) (querySelectorAll doc inputsSel) d1) (\<lambda>d2.
     andThen (forEach (checkboxStep doc) (querySelectorAll doc checkboxesAndRadiosSel) d2) (\<lambda>d3.
     andThen (forEach (selectStep doc) (querySelectorAll doc [Tag ''select'']) d3) (\<lambda>d4.
     andThen (forEach (linkStep doc) (querySelectorAll doc [Tag ''a'']) d4) (\<lambda>d5.
     andThen (forEach headingStep (querySelectorAll doc headingsSel) d5) (\<lambda>d6.
     andThen (forEach staticTextStep (querySelectorAll doc staticTextsSel) d6) (\<lambda>d7.
     forEach tableHeaderStep (querySelectorAll doc [Tag ''th'']) d7)))))))"

subsection \<open>Filtering, serialization and download\<close>

definition validElementsData :: "elementData list \<Rightarrow> elementData list" where
  "validElementsData elementsData = filter (\<lambda>item. selector_type item \<noteq> ''none'') elementsData"

text \<open>\<^verbatim>\<open>s.replace(/"/g, '""')\<close>\<close>

definition replaceQuotes :: "string \<Rightarrow> string" where
  "replaceQuotes s = concat (map (\<lambda>c. if c = dq then [dq, dq] else [c]) s)"

definition csvHeader :: string where
  "csvHeader = ''Element Type,Text Content,Selector Type,Selector Value'' @ [nl]"

definition csvRow :: "elementData \<Rightarrow> string" where
  "csvRow item =
     (let elementType = [dq] @ replaceQuotes (element_type item) @ [dq];
          textContent = [dq] @ replaceQuotes (text_content item) @ [dq];
          selectorType = [dq] @ replaceQuotes (selector_type item) @ [dq];
          selectorValue = [dq] @ replaceQuotes (selector_value item) @ [dq]
      in elementType @ '','' @ textContent @ '','' @ selectorType @ '','' @ selectorValue @ [nl])"

definition toCsv :: "elementData list \<Rightarrow> string" where
  "toCsv valid = foldl (\<lambda>csv item. csv @ csvRow item) csvHeader valid"

text \<open>\<^verbatim>\<open>/[a-z0-9]/i\<close>\<close>

definition isAlnum :: "char \<Rightarrow> bool" where
  "isAlnum c =
     (let n = (of_char c :: nat)
      in (97 \<le> n \<and> n \<le> 122) \<or> (65 \<le> n \<and> n \<le> 90) \<or> (48 \<le> n \<and> n \<le> 57))"

definition pageTitle :: "document \<Rightarrow> string" where
  "pageTitle doc =
     orElse (toLowerCase (map (\<lambda>c. if isAlnum c then c else CHR ''_'') (title doc))) ''webpage''"

text \<open>
  The file name; \<open>isoNow\<close> is what \<^verbatim>\<open>new Date().toISOString()\<close> returns when the
  script runs.
\<close>

definition fileName :: "string \<Rightarrow> document \<Rightarrow> string" where
  "fileName isoNow doc = pageTitle doc @ ''_elements_'' @ take 10 isoNow @ ''.csv''"

text \<open>A number in a template literal: its decimal digits.\<close>

fun decimal :: "nat \<Rightarrow> string" where
  "decimal n =
     (if n < 10 then [char_of (48 + n)] else decimal (n div 10) @ [char_of (48 + n mod 10)])"

declare decimal.simps [simp del]

text \<open>
  The hidden link the script creates for the download
  (\<^verbatim>\<open>document.createElement('a')\<close>), appends to the body, clicks and removes again.
  \<^verbatim>\<open>removeChild(link)\<close> takes out the very node \<^verbatim>\<open>appendChild(link)\<close> has put last.
\<close>

definition downloadLink :: node where
  "downloadLink =
     Element \<lparr>tagName = ''A'', elId = [], className = ClassString [], elType = [],
              elValue = [], placeholder = [], attrType = None, attrFor = None,
              elOptions = []\<rparr> []"

definition appendChild :: "document \<Rightarrow> node \<Rightarrow> document" where
  "appendChild doc n = doc\<lparr>body := body doc @ [n]\<rparr>"

definition removeLastChild :: "document \<Rightarrow> document" where
  "removeLastChild doc = doc\<lparr>body := butlast (body doc)\<rparr>"

text \<open>
  What one run leaves behind: the downloaded file (name and content), the two
  console lines, the value the function returns, and the document.
\<close>

record outcome =
  downloadName :: string
  downloadContent :: string
  console :: "string list"
  returned :: "elementData list"
  documentAfter :: document

definition extractImportantElements :: "string \<Rightarrow> document \<Rightarrow> fault + outcome" where
  "extractImportantElements isoNow doc =
     andThen (collect doc) (\<lambda>elementsData.
       let valid = validElementsData elementsData;
           csv = toCsv valid;
           filename = fileName isoNow doc;
           doc1 = appendChild doc downloadLink;
           doc2 = removeLastChild doc1
       in Inr \<lparr>downloadName = filename,
               downloadContent = csv,
               console =
                 [''Extracted '' @ decimal (length valid) @
                    '' elements with ID or class and downloaded as '' @ filename,
                  ''(Skipped '' @ decimal (length elementsData - length valid) @
                    '' elements that had no ID or class)''],
               returned = elementsData,
               documentAfter = doc2\<rparr>)"

section \<open>The layout of the CSV file in the specification's words\<close>

text \<open>
  A field is enclosed in double quotes, every double quote inside it doubled; a row
  is its four fields separated by commas and ended by a newline; the file is the
  header line followed by the rows.
\<close>

fun doubleQuotes :: "string \<Rightarrow> string" where
  "doubleQuotes [] = []"
| "doubleQuotes (c # cs) = (if c = dq then dq # dq # doubleQuotes cs else c # doubleQuotes cs)"

definition quotedField :: "string \<Rightarrow> string" where
  "quotedField f = dq # doubleQuotes f @ [dq]"

definition specRow :: "elementData \<Rightarrow> string" where
  "specRow r =
     join '','' (map quotedField
       [element_type r, text_content r, selector_type r, selector_value r]) @ [nl]"

definition specCsv :: "elementData list \<Rightarrow> string" where
  "specCsv rs =
     (''Element Type,Text Content,Selector Type,Selector Value'' @ [nl]) @ concat (map specRow rs)"

text \<open>Every record of a sequence has a non-empty text.\<close>

definition textsNonEmpty :: "elementData list \<Rightarrow> bool" where
  "textsNonEmpty ds = list_all (\<lambda>r. text_content r \<noteq> []) ds"

section \<open>The admission and labeling rules as statements\<close>

text \<open>
  Admission to the generic-text pass: (a) a direct child that is a text node with
  non-empty trimmed content, (b) an own trimmed text that is non-empty and shorter
  than 200 characters, (c) no descendant that is a button, input, select, link or
  heading.
\<close>

definition importantTags :: "string list" where
  "importantTags = [''button'', ''input'', ''select'', ''a'', ''h1'', ''h2'', ''h3'', ''h4'', ''h5'', ''h6'']"

definition admitted :: "element \<Rightarrow> bool" where
  "admitted x =
     ((\<exists>s. TextNode s \<in> set (snd x) \<and> trim s \<noteq> []) \<and>
      trim (elementText x) \<noteq> [] \<and> length (trim (elementText x)) < 200 \<and>
      (\<forall>d \<in> set (descendants x). toLowerCase (tagName (fst d)) \<notin> set importantTags))"

definition staticRecord :: "element \<Rightarrow> elementData" where
  "staticRecord x =
     \<lparr>element_type = toLowerCase (tagName (fst x)),
      text_content = trim (elementText x),
      selector_type = ident_type (getElementIdentifier (fst x)),
      selector_value = ident_value (getElementIdentifier (fst x))\<rparr>"

text \<open>
  The trimmed text of the first \<^verbatim>\<open>label\<close> element, in document order, whose
  \<^verbatim>\<open>for\<close> attribute equals the given id; \<open>None\<close> when there is no such label.
\<close>

definition labelTextFor :: "document \<Rightarrow> string \<Rightarrow> string option" where
  "labelTextFor doc i =
     map_option (\<lambda>l. trim (elementText l)) (find (isLabelFor i) (allElements doc))"

text \<open>The text of a checkbox or radio input: its label's, else the bracketed subtype.\<close>

definition checkboxText :: "document \<Rightarrow> element \<Rightarrow> string" where
  "checkboxText doc x =
     (case labelTextFor doc (elId (fst x)) of
        Some t \<Rightarrow> t
      | None \<Rightarrow> ''['' @ elType (fst x) @ '']'')"

definition checkboxRecord :: "document \<Rightarrow> element \<Rightarrow> elementData" where
  "checkboxRecord doc x =
     \<lparr>element_type = ''input'' @ typeSuffix (elType (fst x)),
      text_content = checkboxText doc x,
      selector_type = ident_type (getElementIdentifier (fst x)),
      selector_value = ident_value (getElementIdentifier (fst x))\<rparr>"

text \<open>
  The text of an element of the form-inputs pass: its label's; else for an
  \<^verbatim>\<open>input\<close> the placeholder or the bracketed subtype, and for a \<^verbatim>\<open>textarea\<close> its
  own trimmed text cut to 100 characters.
\<close>

definition textTypes :: "string list" where
  "textTypes = [''text'', ''password'', ''email'', ''number'', ''search'', ''tel'', ''url'']"

definition inputText :: "document \<Rightarrow> element \<Rightarrow> string" where
  "inputText doc x =
     (case labelTextFor doc (elId (fst x)) of
        Some t \<Rightarrow> t
      | None \<Rightarrow>
          if tagName (fst x) = ''INPUT''
          then orElse (placeholder (fst x)) (''['' @ elType (fst x) @ '' input]'')
          else truncate100 (trim (elementText x)))"

definition inputRecord :: "document \<Rightarrow> element \<Rightarrow> elementData" where
  "inputRecord doc x =
     \<lparr>element_type = toLowerCase (tagName (fst x)) @
        (if elType (fst x) \<noteq> [] then typeSuffix (elType (fst x)) else []),
      text_content = inputText doc x,
      selector_type = ident_type (getElementIdentifier (fst x)),
      selector_value = ident_value (getElementIdentifier (fst x))\<rparr>"



section \<open>Example elements and documents\<close>

text \<open>An element with no id, no class and no other property set.\<close>

definition bare :: elem where
  "bare = \<lparr>tagName = [], elId = [], className = ClassString [], elType = [],
           elValue = [], placeholder = [], attrType = None, attrFor = None,
           elOptions = []\<rparr>"

text \<open>\<^verbatim>\<open><button id="submit-btn" class="btn primary">\<close>\<close>

definition exIdAndClass :: elem where
  "exIdAndClass =
     bare\<lparr>tagName := ''BUTTON'', elId := ''submit-btn'', className := ClassString ''btn primary''\<rparr>"

text \<open>\<^verbatim>\<open><div class="  card ">\<close>\<close>

definition exClassOnly :: elem where
  "exClassOnly = bare\<lparr>tagName := ''DIV'', className := ClassString ''  card ''\<rparr>"

text \<open>\<^verbatim>\<open><p class="   ">\<close>\<close>

definition exBlankClass :: elem where
  "exBlankClass = bare\<lparr>tagName := ''P'', className := ClassString ''   ''\<rparr>"

text \<open>
  A sign-up page:
  \<^verbatim>\<open><h1>Create "your" account</h1>\<close>
  \<^verbatim>\<open><form class="signup">\<close>
  \<^verbatim>\<open>  <label for="email">Email</label>\<close>
  \<^verbatim>\<open>  <input type="email" id="email" placeholder="you@example.org">\<close>
  \<^verbatim>\<open>  <input type="checkbox" id="agree"><label class="chk" for="agree"> I agree </label>\<close>
  \<^verbatim>\<open>  <select id="country"><option>France</option><option>Peru</option></select>\<close>
  \<^verbatim>\<open>  <button id="submit-btn" class="btn">Submit</button>\<close>
  \<^verbatim>\<open></form>\<close>
  \<^verbatim>\<open><p class="note">Say "hi" <b>now</b></p>\<close>
\<close>

definition exPage :: document where
  "exPage =
     \<lparr>title = ''Sign up'',
      body =
        [Element (bare\<lparr>tagName := ''H1''\<rparr>)
           [TextNode (''Create '' @ [dq] @ ''your'' @ [dq] @ '' account'')],
         Element (bare\<lparr>tagName := ''FORM'', className := ClassString ''signup''\<rparr>)
           [Element (bare\<lparr>tagName := ''LABEL'', attrFor := Some ''email''\<rparr>) [TextNode ''Email''],
            Element (bare\<lparr>tagName := ''INPUT'', elId := ''email'', elType := ''email'',
                          attrType := Some ''email'', placeholder := ''you@example.org''\<rparr>) [],
            Element (bare\<lparr>tagName := ''INPUT'', elId := ''agree'', elType := ''checkbox'',
                          attrType := Some ''checkbox'', elValue := ''on''\<rparr>) [],
            Element (bare\<lparr>tagName := ''LABEL'', className := ClassString ''chk'',
                          attrFor := Some ''agree''\<rparr>) [TextNode '' I agree ''],
            Element (bare\<lparr>tagName := ''SELECT'', elId := ''country'', elType := ''select-one'',
                          elOptions := [''France'', ''Peru'']\<rparr>)
              [Element (bare\<lparr>tagName := ''OPTION''\<rparr>) [TextNode ''France''],
               Element (bare\<lparr>tagName := ''OPTION''\<rparr>) [TextNode ''Peru'']],
            Element (bare\<lparr>tagName := ''BUTTON'', elId := ''submit-btn'',
                          className := ClassString ''btn'', elType := ''submit''\<rparr>)
              [TextNode ''Submit'']],
         Element (bare\<lparr>tagName := ''P'', className := ClassString ''note''\<rparr>)
           [TextNode (''Say '' @ [dq] @ ''hi'' @ [dq] @ '' ''),
            Element (bare\<lparr>tagName := ''B''\<rparr>) [TextNode ''now'']]]\<rparr>"

text \<open>What the eight passes collect on that page, in order.\<close>

definition exCollected :: "elementData list" where
  "exCollected =
     [\<lparr>element_type = ''button[type='' @ [dq] @ ''submit'' @ [dq] @ '']'', text_content = ''Submit'',
       selector_type = ''id'', selector_value = ''submit-btn''\<rparr>,
      \<lparr>element_type = ''input[type='' @ [dq] @ ''email'' @ [dq] @ '']'', text_content = ''Email'',
       selector_type = ''id'', selector_value = ''email''\<rparr>,
      \<lparr>element_type = ''input[type='' @ [dq] @ ''checkbox'' @ [dq] @ '']'', text_content = ''I agree'',
       selector_type = ''id'', selector_value = ''agree''\<rparr>,
      \<lparr>element_type = ''select'', text_content = ''France, Peru'',
       selector_type = ''id'', selector_value = ''country''\<rparr>,
      \<lparr>element_type = ''h1'', text_content = ''Create '' @ [dq] @ ''your'' @ [dq] @ '' account'',
       selector_type = ''none'', selector_value = ''no-id-or-class''\<rparr>,
      \<lparr>element_type = ''label'', text_content = ''Email'',
       selector_type = ''none'', selector_value = ''no-id-or-class''\<rparr>,
      \<lparr>element_type = ''label'', text_content = ''I agree'',
       selector_type = ''class'', selector_value = ''chk''\<rparr>,
      \<lparr>element_type = ''p'', text_content = ''Say '' @ [dq] @ ''hi'' @ [dq] @ '' now'',
       selector_type = ''class'', selector_value = ''note''\<rparr>]"

text \<open>The records of \<^const>\<open>exCollected\<close> that have an id or a class.\<close>

definition exValid :: "elementData list" where
  "exValid =
     [\<lparr>element_type = ''button[type='' @ [dq] @ ''submit'' @ [dq] @ '']'', text_content = ''Submit'',
       selector_type = ''id'', selector_value = ''submit-btn''\<rparr>,
      \<lparr>element_type = ''input[type='' @ [dq] @ ''email'' @ [dq] @ '']'', text_content = ''Email'',
       selector_type = ''id'', selector_value = ''email''\<rparr>,
      \<lparr>element_type = ''input[type='' @ [dq] @ ''checkbox'' @ [dq] @ '']'', text_content = ''I agree'',
       selector_type = ''id'', selector_value = ''agree''\<rparr>,
      \<lparr>element_type = ''select'', text_content = ''France, Peru'',
       selector_type = ''id'', selector_value = ''country''\<rparr>,
      \<lparr>element_type = ''label'', text_content = ''I agree'',
       selector_type = ''class'', selector_value = ''chk''\<rparr>,
      \<lparr>element_type = ''p'', text_content = ''Say '' @ [dq] @ ''hi'' @ [dq] @ '' now'',
       selector_type = ''class'', selector_value = ''note''\<rparr>]"

text \<open>The file expected for that page, line by line.\<close>

definition exCsv :: string where
  "exCsv =
     ''Element Type,Text Content,Selector Type,Selector Value'' @ [nl] @
     [dq] @ ''button[type='' @ [dq, dq] @ ''submit'' @ [dq, dq] @ '']'' @ [dq] @ '','' @
       [dq] @ ''Submit'' @ [dq] @ '','' @ [dq] @ ''id'' @ [dq] @ '','' @
       [dq] @ ''submit-btn'' @ [dq] @ [nl] @
     [dq] @ ''input[type='' @ [dq, dq] @ ''email'' @ [dq, dq] @ '']'' @ [dq] @ '','' @
       [dq] @ ''Email'' @ [dq] @ '','' @ [dq] @ ''id'' @ [dq] @ '','' @
       [dq] @ ''email'' @ [dq] @ [nl] @
     [dq] @ ''input[type='' @ [dq, dq] @ ''checkbox'' @ [dq, dq] @ '']'' @ [dq] @ '','' @
       [dq] @ ''I agree'' @ [dq] @ '','' @ [dq] @ ''id'' @ [dq] @ '','' @
       [dq] @ ''agree'' @ [dq] @ [nl] @
     [dq] @ ''select'' @ [dq] @ '','' @
       [dq] @ ''France, Peru'' @ [dq] @ '','' @ [dq] @ ''id'' @ [dq] @ '','' @
       [dq] @ ''country'' @ [dq] @ [nl] @
     [dq] @ ''label'' @ [dq] @ '','' @
       [dq] @ ''I agree'' @ [dq] @ '','' @ [dq] @ ''class'' @ [dq] @ '','' @
       [dq] @ ''chk'' @ [dq] @ [nl] @
     [dq] @ ''p'' @ [dq] @ '','' @
       [dq] @ ''Say '' @ [dq, dq] @ ''hi'' @ [dq, dq] @ '' now'' @ [dq] @ '','' @
       [dq] @ ''class'' @ [dq] @ '','' @
       [dq] @ ''note'' @ [dq] @ [nl]"

text \<open>Two moments at which the script is run.\<close>

definition exNow :: string where
  "exNow = ''2026-11-03T09:15:00.000Z''"

definition exLater :: string where
  "exLater = ''2026-11-04T18:40:12.500Z''"

text \<open>\<^verbatim>\<open><select></select>\<close>: no id, no option.\<close>

definition exEmptySelect :: element where
  "exEmptySelect = (bare\<lparr>tagName := ''SELECT'', elType := ''select-one''\<rparr>, [])"

text \<open>
  Containers and texts:
  \<^verbatim>\<open><div class="card"><p id="hello">Hello <b>World</b></p></div>\<close>
  \<^verbatim>\<open><div id="nav">See <a>docs</a></div>\<close>
  \<^verbatim>\<open><span id="long">x ... x</span>\<close> (200 times \<open>x\<close>)
\<close>

definition exHelloP :: element where
  "exHelloP =
     (bare\<lparr>tagName := ''P'', elId := ''hello''\<rparr>,
      [TextNode ''Hello '', Element (bare\<lparr>tagName := ''B''\<rparr>) [TextNode ''World'']])"

definition exCardDiv :: element where
  "exCardDiv =
     (bare\<lparr>tagName := ''DIV'', className := ClassString ''card''\<rparr>,
      [Element (fst exHelloP) (snd exHelloP)])"

definition exNavDiv :: element where
  "exNavDiv =
     (bare\<lparr>tagName := ''DIV'', elId := ''nav''\<rparr>,
      [TextNode ''See '', Element (bare\<lparr>tagName := ''A''\<rparr>) [TextNode ''docs'']])"

definition exLongSpan :: element where
  "exLongSpan =
     (bare\<lparr>tagName := ''SPAN'', elId := ''long''\<rparr>, [TextNode (replicate 200 (CHR ''x''))])"

definition exCards :: document where
  "exCards =
     \<lparr>title = ''Cards'',
      body = [Element (fst exCardDiv) (snd exCardDiv), Element (fst exNavDiv) (snd exNavDiv),
              Element (fst exLongSpan) (snd exLongSpan)]\<rparr>"

text \<open>
  A labelled checkbox and a radio button without id:
  \<^verbatim>\<open><input type="checkbox" id="agree"><label for="agree"> I agree </label>\<close>
  \<^verbatim>\<open><input type="radio" class="opt">\<close>
\<close>

definition exAgreeBox :: element where
  "exAgreeBox =
     (bare\<lparr>tagName := ''INPUT'', elId := ''agree'', elType := ''checkbox'',
           elValue := ''on'', attrType := Some ''checkbox''\<rparr>, [])"

definition exOptRadio :: element where
  "exOptRadio =
     (bare\<lparr>tagName := ''INPUT'', className := ClassString ''opt'', elType := ''radio'',
           elValue := ''on'', attrType := Some ''radio''\<rparr>, [])"

definition exChoices :: document where
  "exChoices =
     \<lparr>title = ''Choices'',
      body = [Element (fst exAgreeBox) (snd exAgreeBox),
              Element (bare\<lparr>tagName := ''LABEL'', attrFor := Some ''agree''\<rparr>) [TextNode '' I agree ''],
              Element (fst exOptRadio) (snd exOptRadio)]\<rparr>"

text \<open>
  A label with an empty \<^verbatim>\<open>for\<close> attribute and a checkbox without id:
  \<^verbatim>\<open><label for="">Accept terms</label><input type="checkbox" class="tos">\<close>
\<close>

definition exTosBox :: element where
  "exTosBox =
     (bare\<lparr>tagName := ''INPUT'', className := ClassString ''tos'', elType := ''checkbox'',
           elValue := ''on'', attrType := Some ''checkbox''\<rparr>, [])"

definition exBlankFor :: document where
  "exBlankFor =
     \<lparr>title = ''Terms'',
      body = [Element (bare\<lparr>tagName := ''LABEL'', attrFor := Some []\<rparr>) [TextNode ''Accept terms''],
              Element (fst exTosBox) (snd exTosBox)]\<rparr>"

text \<open>
  A login form:
  \<^verbatim>\<open><label for="user">Username</label>\<close>
  \<^verbatim>\<open><input type="text" id="user" placeholder="Enter name">\<close>
  \<^verbatim>\<open><input type="password" id="pw" placeholder="Secret">\<close>
  \<^verbatim>\<open><input type="search" class="q">\<close>
  \<^verbatim>\<open><textarea id="bio" placeholder="Your bio">Hello</textarea>\<close>
\<close>

definition exUserInput :: element where
  "exUserInput =
     (bare\<lparr>tagName := ''INPUT'', elId := ''user'', elType := ''text'',
           placeholder := ''Enter name'', attrType := Some ''text''\<rparr>, [])"

definition exPwInput :: element where
  "exPwInput =
     (bare\<lparr>tagName := ''INPUT'', elId := ''pw'', elType := ''password'',
           placeholder := ''Secret'', attrType := Some ''password''\<rparr>, [])"

definition exSearchInput :: element where
  "exSearchInput =
     (bare\<lparr>tagName := ''INPUT'', className := ClassString ''q'', elType := ''search'',
           attrType := Some ''search''\<rparr>, [])"

definition exBioArea :: element where
  "exBioArea =
     (bare\<lparr>tagName := ''TEXTAREA'', elId := ''bio'', elType := ''textarea'',
           elValue := ''Hello'', placeholder := ''Your bio''\<rparr>, [TextNode ''Hello''])"

definition exLogin :: document where
  "exLogin =
     \<lparr>title = ''Login'',
      body = [Element (bare\<lparr>tagName := ''LABEL'', attrFor := Some ''user''\<rparr>) [TextNode ''Username''],
              Element (fst exUserInput) (snd exUserInput),
              Element (fst exPwInput) (snd exPwInput),
              Element (fst exSearchInput) (snd exSearchInput),
              Element (fst exBioArea) (snd exBioArea)]\<rparr>"

definition exLoginRecords :: "elementData list" where
  "exLoginRecords =
     [\<lparr>element_type = ''input[type='' @ [dq] @ ''text'' @ [dq] @ '']'',
       text_content = ''Username'', selector_type = ''id'', selector_value = ''user''\<rparr>,
      \<lparr>element_type = ''input[type='' @ [dq] @ ''password'' @ [dq] @ '']'',
       text_content = ''Secret'', selector_type = ''id'', selector_value = ''pw''\<rparr>,
      \<lparr>element_type = ''input[type='' @ [dq] @ ''search'' @ [dq] @ '']'',
       text_content = ''[search input]'', selector_type = ''class'', selector_value = ''q''\<rparr>,
      \<lparr>element_type = ''textarea[type='' @ [dq] @ ''textarea'' @ [dq] @ '']'',
       text_content = ''Hello'', selector_type = ''id'', selector_value = ''bio''\<rparr>]"






text \<open>An input whose id holds a double quote: \<^verbatim>\<open><input type="text" id='a"b'>\<close>\<close>

definition exQuoted :: document where
  "exQuoted =
     \<lparr>title = ''Quoted'',
      body = [Element (bare\<lparr>tagName := ''INPUT'', elId := ''a'' @ [dq] @ ''b'', elType := ''text'',
                            attrType := Some ''text''\<rparr>) []]\<rparr>"

section \<open>Properties\<close>

subsection \<open>Auxiliary facts\<close>

lemma trim_Nil: "trim [] = []"
  by (simp add: trim_def)

subsection \<open>Loops and sequencing\<close>

lemma foldl_append_concat: "foldl (\<lambda>csv item. csv @ f item) s xs = s @ concat (map f xs)"
  by (induction xs arbitrary: s) auto

lemma forEach_invariant:
  assumes run: "forEach f xs acc = Inr acc'" and init: "P acc"
    and step: "\<And>x a a'. x \<in> set xs \<Longrightarrow> P a \<Longrightarrow> f x a = Inr a' \<Longrightarrow> P a'"
  shows "P acc'"
  using run init step
proof (induction xs arbitrary: acc)
  case Nil
  then show ?case by simp
next
  case (Cons x xs)
  from Cons.prems(1) obtain mid where mid: "f x acc = Inr mid" "forEach f xs mid = Inr acc'"
    by (auto split: sum.splits)
  have pm: "P mid"
    by (rule Cons.prems(3) [OF _ Cons.prems(2) mid(1)]) simp
  show ?case
  proof (rule Cons.IH [OF mid(2) pm])
    fix y a a'
    assume "y \<in> set xs" and pa: "P a" and fy: "f y a = Inr a'"
    then have "y \<in> set (x # xs)" by simp
    then show "P a'" using pa fy by (rule Cons.prems(3))
  qed
qed

lemma buttonStep_text:
  "buttonStep doc x a = Inr a' \<Longrightarrow> textsNonEmpty a \<Longrightarrow> textsNonEmpty a'"
  by (auto simp: buttonStep_def andThen_def push_def Let_def textsNonEmpty_def
           split: sum.splits if_splits)

lemma inputStep_text:
  "inputStep doc x a = Inr a' \<Longrightarrow> textsNonEmpty a \<Longrightarrow> textsNonEmpty a'"
  by (auto simp: inputStep_def andThen_def push_def Let_def textsNonEmpty_def
           split: sum.splits if_splits option.splits)

lemma checkboxStep_text:
  "checkboxStep doc x a = Inr a' \<Longrightarrow> textsNonEmpty a \<Longrightarrow> textsNonEmpty a'"
  by (auto simp: checkboxStep_def andThen_def push_def Let_def textsNonEmpty_def
           split: sum.splits if_splits option.splits)

lemma selectStep_text:
  "selectStep doc x a = Inr a' \<Longrightarrow> textsNonEmpty a \<Longrightarrow> textsNonEmpty a'"
  by (auto simp: selectStep_def andThen_def push_def Let_def textsNonEmpty_def
           split: sum.splits if_splits)

lemma linkStep_text:
  "linkStep doc x a = Inr a' \<Longrightarrow> textsNonEmpty a \<Longrightarrow> textsNonEmpty a'"
  by (auto simp: linkStep_def andThen_def push_def Let_def textsNonEmpty_def
           split: sum.splits if_splits)

lemma headingStep_text:
  "headingStep x a = Inr a' \<Longrightarrow> textsNonEmpty a \<Longrightarrow> textsNonEmpty a'"
  by (auto simp: headingStep_def push_def Let_def textsNonEmpty_def split: if_splits)

lemma staticTextStep_text:
  "staticTextStep x a = Inr a' \<Longrightarrow> textsNonEmpty a \<Longrightarrow> textsNonEmpty a'"
  by (auto simp: staticTextStep_def push_def Let_def textsNonEmpty_def split: if_splits)

lemma tableHeaderStep_text:
  "tableHeaderStep x a = Inr a' \<Longrightarrow> textsNonEmpty a \<Longrightarrow> textsNonEmpty a'"
  by (auto simp: tableHeaderStep_def push_def Let_def textsNonEmpty_def split: if_splits)

lemma andThen_Inr: "andThen m f = Inr r \<Longrightarrow> \<exists>v. m = Inr v \<and> f v = Inr r"
  by (cases m) (simp_all add: andThen_def)

lemma collect_passes:
  assumes "collect doc = Inr ds"
  obtains d1 d2 d3 d4 d5 d6 d7 where
    "forEach (buttonStep doc) (querySelectorAll doc buttonsSel) [] = Inr d1"
    "forEach (inputStep doc) (querySelectorAll doc inputsSel) d1 = Inr d2"
    "forEach (checkboxStep doc) (querySelectorAll doc checkboxesAndRadiosSel) d2 = Inr d3"
    "forEach (selectStep doc) (querySelectorAll doc [Tag ''select'']) d3 = Inr d4"
    "forEach (linkStep doc) (querySelectorAll doc [Tag ''a'']) d4 = Inr d5"
    "forEach headingStep (querySelectorAll doc headingsSel) d5 = Inr d6"
    "forEach staticTextStep (querySelectorAll doc staticTextsSel) d6 = Inr d7"
    "forEach tableHeaderStep (querySelectorAll doc [Tag ''th'']) d7 = Inr ds"
  using assms unfolding collect_def andThen_def by (simp split: sum.splits)

lemma collect_textsNonEmpty:
  assumes "collect doc = Inr ds"
  shows "textsNonEmpty ds"
proof -
  from assms obtain d1 d2 d3 d4 d5 d6 d7 where p:
    "forEach (buttonStep doc) (querySelectorAll doc buttonsSel) [] = Inr d1"
    "forEach (inputStep doc) (querySelectorAll doc inputsSel) d1 = Inr d2"
    "forEach (checkboxStep doc) (querySelectorAll doc checkboxesAndRadiosSel) d2 = Inr d3"
    "forEach (selectStep doc) (querySelectorAll doc [Tag ''select'']) d3 = Inr d4"
    "forEach (linkStep doc) (querySelectorAll doc [Tag ''a'']) d4 = Inr d5"
    "forEach headingStep (querySelectorAll doc headingsSel) d5 = Inr d6"
    "forEach staticTextStep (querySelectorAll doc staticTextsSel) d6 = Inr d7"
    "forEach tableHeaderStep (querySelectorAll doc [Tag ''th'']) d7 = Inr ds"
    by (rule collect_passes)
  have 0: "textsNonEmpty []" by (simp add: textsNonEmpty_def)
  have 1: "textsNonEmpty d1"
    using p(1) 0 by (rule forEach_invariant) (rule buttonStep_text)
  have 2: "textsNonEmpty d2"
    using p(2) 1 by (rule forEach_invariant) (rule inputStep_text)
  have 3: "textsNonEmpty d3"
    using p(3) 2 by (rule forEach_invariant) (rule checkboxStep_text)
  have 4: "textsNonEmpty d4"
    using p(4) 3 by (rule forEach_invariant) (rule selectStep_text)
  have 5: "textsNonEmpty d5"
    using p(5) 4 by (rule forEach_invariant) (rule linkStep_text)
  have 6: "textsNonEmpty d6"
    using p(6) 5 by (rule forEach_invariant) (rule headingStep_text)
  have 7: "textsNonEmpty d7"
    using p(7) 6 by (rule forEach_invariant) (rule staticTextStep_text)
  show ?thesis
    using p(8) 7 by (rule forEach_invariant) (rule tableHeaderStep_text)
qed

subsection \<open>Completion\<close>

lemma forEach_completes:
  assumes "\<And>x a. x \<in> set xs \<Longrightarrow> \<exists>a'. f x a = Inr a'"
  shows "\<exists>acc'. forEach f xs acc = Inr acc'"
  using assms
proof (induction xs arbitrary: acc)
  case Nil
  then show ?case by simp
next
  case (Cons x xs)
  have "\<exists>a'. f x acc = Inr a'" by (rule Cons.prems) simp
  then obtain mid where mid: "f x acc = Inr mid" by blast
  have "\<exists>acc'. forEach f xs mid = Inr acc'"
    by (rule Cons.IH) (rule Cons.prems, simp)
  with mid show ?case by simp
qed

lemma queryLabelFor_plain:
  "cssPlain i \<Longrightarrow> queryLabelFor doc i = Inr (find (isLabelFor i) (allElements doc))"
  by (simp add: queryLabelFor_def)

lemma getElementText_plain:
  assumes "cssPlain (elId (fst x))"
  shows "\<exists>t. getElementText doc x = Inr t"
  using assms by (simp add: getElementText_def Let_def andThen_def queryLabelFor_plain
      split: option.splits)

lemma steps_complete:
  assumes "cssPlain (elId (fst x))"
  shows "\<exists>a'. buttonStep doc x a = Inr a'" "\<exists>a'. inputStep doc x a = Inr a'"
    "\<exists>a'. checkboxStep doc x a = Inr a'" "\<exists>a'. selectStep doc x a = Inr a'"
    "\<exists>a'. linkStep doc x a = Inr a'"
proof -
  from getElementText_plain [OF assms] obtain t where t: "getElementText doc x = Inr t"
    by blast
  show "\<exists>a'. buttonStep doc x a = Inr a'"
    by (simp add: buttonStep_def Let_def andThen_def t)
  show "\<exists>a'. selectStep doc x a = Inr a'"
    by (simp add: selectStep_def Let_def andThen_def t)
  show "\<exists>a'. linkStep doc x a = Inr a'"
    by (simp add: linkStep_def Let_def andThen_def t)
  show "\<exists>a'. inputStep doc x a = Inr a'"
    by (simp add: inputStep_def Let_def andThen_def t queryLabelFor_plain [OF assms]
        split: option.splits)
  show "\<exists>a'. checkboxStep doc x a = Inr a'"
    by (simp add: checkboxStep_def Let_def andThen_def t queryLabelFor_plain [OF assms]
        split: option.splits)
qed

lemma plain_steps_complete:
  "\<exists>a'. headingStep x a = Inr a'" "\<exists>a'. staticTextStep x a = Inr a'"
  "\<exists>a'. tableHeaderStep x a = Inr a'"
  by (simp_all add: headingStep_def staticTextStep_def tableHeaderStep_def Let_def)

lemma collect_completes:
  assumes plain: "\<forall>x \<in> set (allElements doc). cssPlain (elId (fst x))"
  shows "\<exists>ds. collect doc = Inr ds"
proof -
  have p: "cssPlain (elId (fst x))" if "x \<in> set (querySelectorAll doc sels)" for x sels
    using that plain by (simp add: querySelectorAll_def)
  obtain d1 where 1: "forEach (buttonStep doc) (querySelectorAll doc buttonsSel) [] = Inr d1"
    using forEach_completes [of _ "buttonStep doc"] steps_complete(1) p by meson
  obtain d2 where 2: "forEach (inputStep doc) (querySelectorAll doc inputsSel) d1 = Inr d2"
    using forEach_completes [of _ "inputStep doc"] steps_complete(2) p by meson
  obtain d3 where 3: "forEach (checkboxStep doc) (querySelectorAll doc checkboxesAndRadiosSel) d2 = Inr d3"
    using forEach_completes [of _ "checkboxStep doc"] steps_complete(3) p by meson
  obtain d4 where 4: "forEach (selectStep doc) (querySelectorAll doc [Tag ''select'']) d3 = Inr d4"
    using forEach_completes [of _ "selectStep doc"] steps_complete(4) p by meson
  obtain d5 where 5: "forEach (linkStep doc) (querySelectorAll doc [Tag ''a'']) d4 = Inr d5"
    using forEach_completes [of _ "linkStep doc"] steps_complete(5) p by meson
  obtain d6 where 6: "forEach headingStep (querySelectorAll doc headingsSel) d5 = Inr d6"
    using forEach_completes [of _ headingStep] plain_steps_complete(1) by meson
  obtain d7 where 7: "forEach staticTextStep (querySelectorAll doc staticTextsSel) d6 = Inr d7"
    using forEach_completes [of _ staticTextStep] plain_steps_complete(2) by meson
  obtain d8 where 8: "forEach tableHeaderStep (querySelectorAll doc [Tag ''th'']) d7 = Inr d8"
    using forEach_completes [of _ tableHeaderStep] plain_steps_complete(3) by meson
  from 1 2 3 4 5 6 7 8 show ?thesis
    by (simp add: collect_def andThen_def)
qed

subsection \<open>Serialization\<close>

lemma replaceQuotes_doubleQuotes: "replaceQuotes s = doubleQuotes s"
  by (induction s) (simp_all add: replaceQuotes_def)

lemma csvRow_specRow: "csvRow r = specRow r"
  by (simp add: csvRow_def specRow_def quotedField_def replaceQuotes_doubleQuotes)

lemma toCsv_rows: "toCsv rs = csvHeader @ concat (map csvRow rs)"
  by (simp add: toCsv_def foldl_append_concat)

lemma toCsv_specCsv: "toCsv rs = specCsv rs"
proof -
  have "csvRow = specRow" by (rule ext) (rule csvRow_specRow)
  then show ?thesis by (simp add: toCsv_rows specCsv_def csvHeader_def)
qed

text \<open>Unique reading of a quoted field: the closing quote is the first quote not doubled.\<close>

lemma doubleQuotes_unique:
  assumes "doubleQuotes s @ dq # t = doubleQuotes s' @ dq # t'"
    and "t = [] \<or> hd t \<noteq> dq" and "t' = [] \<or> hd t' \<noteq> dq"
  shows "s = s' \<and> t = t'"
  using assms
proof (induction s arbitrary: s')
  case Nil
  then show ?case by (cases s') (auto split: if_splits)
next
  case (Cons c cs)
  show ?case
  proof (cases s')
    case Nil
    with Cons.prems show ?thesis by (auto split: if_splits)
  next
    case (Cons c' cs')
    with Cons.prems Cons.IH [of cs'] show ?thesis by (auto split: if_splits)
  qed
qed

lemma csvRow_inj:
  assumes "csvRow r = csvRow r'"
  shows "r = r'"
proof -
  have ne: "CHR '','' \<noteq> dq" "nl \<noteq> dq" by (simp_all add: dq_def nl_def)
  from assms have e1:
    "doubleQuotes (element_type r) @ dq # (CHR '','' # dq # doubleQuotes (text_content r) @ dq #
       (CHR '','' # dq # doubleQuotes (selector_type r) @ dq #
         (CHR '','' # dq # doubleQuotes (selector_value r) @ dq # [nl]))) =
     doubleQuotes (element_type r') @ dq # (CHR '','' # dq # doubleQuotes (text_content r') @ dq #
       (CHR '','' # dq # doubleQuotes (selector_type r') @ dq #
         (CHR '','' # dq # doubleQuotes (selector_value r') @ dq # [nl])))"
    by (simp add: csvRow_def replaceQuotes_doubleQuotes)
  from doubleQuotes_unique [OF e1] ne have a: "element_type r = element_type r'"
    and e2: "doubleQuotes (text_content r) @ dq #
       (CHR '','' # dq # doubleQuotes (selector_type r) @ dq #
         (CHR '','' # dq # doubleQuotes (selector_value r) @ dq # [nl])) =
      doubleQuotes (text_content r') @ dq #
       (CHR '','' # dq # doubleQuotes (selector_type r') @ dq #
         (CHR '','' # dq # doubleQuotes (selector_value r') @ dq # [nl]))"
    by simp_all
  from doubleQuotes_unique [OF e2] ne have b: "text_content r = text_content r'"
    and e3: "doubleQuotes (selector_type r) @ dq #
         (CHR '','' # dq # doubleQuotes (selector_value r) @ dq # [nl]) =
      doubleQuotes (selector_type r') @ dq #
         (CHR '','' # dq # doubleQuotes (selector_value r') @ dq # [nl])"
    by simp_all
  from doubleQuotes_unique [OF e3] ne have c: "selector_type r = selector_type r'"
    and e4: "doubleQuotes (selector_value r) @ dq # [nl] =
      doubleQuotes (selector_value r') @ dq # [nl]"
    by simp_all
  from doubleQuotes_unique [OF e4] ne have d: "selector_value r = selector_value r'"
    by simp
  from a b c d show ?thesis by simp
qed


lemma extract_Inr:
  assumes "extractImportantElements isoNow doc = Inr out"
  shows "collect doc = Inr (returned out)"
    and "downloadContent out = toCsv (validElementsData (returned out))"
    and "downloadName out = fileName isoNow doc"
    and "documentAfter out = removeLastChild (appendChild doc downloadLink)"
    and "console out =
           [''Extracted '' @ decimal (length (validElementsData (returned out))) @
              '' elements with ID or class and downloaded as '' @ fileName isoNow doc,
            ''(Skipped '' @
              decimal (length (returned out) - length (validElementsData (returned out))) @
              '' elements that had no ID or class)'']"
proof -
  from assms obtain ds where c: "collect doc = Inr ds"
    and o: "out = \<lparr>downloadName = fileName isoNow doc,
               downloadContent = toCsv (validElementsData ds),
               console =
                 [''Extracted '' @ decimal (length (validElementsData ds)) @
                    '' elements with ID or class and downloaded as '' @ fileName isoNow doc,
                  ''(Skipped '' @ decimal (length ds - length (validElementsData ds)) @
                    '' elements that had no ID or class)''],
               returned = ds,
               documentAfter = removeLastChild (appendChild doc downloadLink)\<rparr>"
    unfolding extractImportantElements_def Let_def by (auto dest!: andThen_Inr)
  from c o show "collect doc = Inr (returned out)" by simp
  from o show "downloadContent out = toCsv (validElementsData (returned out))" by simp
  from o show "downloadName out = fileName isoNow doc" by simp
  from o show "documentAfter out = removeLastChild (appendChild doc downloadLink)" by simp
  from o show "console out =
           [''Extracted '' @ decimal (length (validElementsData (returned out))) @
              '' elements with ID or class and downloaded as '' @ fileName isoNow doc,
            ''(Skipped '' @
              decimal (length (returned out) - length (validElementsData (returned out))) @
              '' elements that had no ID or class)'']" by simp
qed

lemma extract_of_collect:
  assumes "collect doc = Inr ds"
  shows "\<exists>out. extractImportantElements isoNow doc = Inr out"
  using assms by (simp add: extractImportantElements_def andThen_def Let_def)

lemma extract_Inl: "extractImportantElements isoNow doc = Inl f \<longleftrightarrow> collect doc = Inl f"
  by (cases "collect doc") (simp_all add: extractImportantElements_def andThen_def Let_def)

lemma document_restored: "removeLastChild (appendChild doc n) = doc"
  by (simp add: removeLastChild_def appendChild_def)

subsection \<open>The example page evaluated\<close>

lemma lc:
  "toLowerCase ''H1'' = ''h1''" "toLowerCase ''FORM'' = ''form''" "toLowerCase ''LABEL'' = ''label''"
  "toLowerCase ''INPUT'' = ''input''" "toLowerCase ''SELECT'' = ''select''"
  "toLowerCase ''OPTION'' = ''option''" "toLowerCase ''BUTTON'' = ''button''"
  "toLowerCase ''P'' = ''p''" "toLowerCase ''B'' = ''b''"
  "toLowerCase ''email'' = ''email''" "toLowerCase ''checkbox'' = ''checkbox''"
  by (simp_all add: toLowerCase_def lowerChar_def char_of_def bit_0)

lemma tr:
  "trim ''Submit'' = ''Submit''" "trim ''Email'' = ''Email''" "trim '' I agree '' = ''I agree''"
  "trim ''France'' = ''France''" "trim ''Peru'' = ''Peru''"
  by (simp_all add: trim_def isWhiteSpace_def)

lemma collect_exPage: "collect exPage = Inr exCollected"
  by (simp add: lc tr exPage_def exCollected_def bare_def collect_def andThen_def querySelectorAll_def allElements_def
      matchesAny_def buttonsSel_def inputsSel_def checkboxesAndRadiosSel_def headingsSel_def
      staticTextsSel_def importantSel_def buttonStep_def inputStep_def checkboxStep_def
      selectStep_def linkStep_def headingStep_def staticTextStep_def tableHeaderStep_def
      getElementText_def getElementIdentifier_def queryLabelFor_def cssPlain_def cssSpecial_def
      isLabelFor_def elementText_def push_def typeSuffix_def
      hasDirectText_def elementQuerySelectorAll_def descendants_def trim_def isWhiteSpace_def
      orElse_def truncate100_def Let_def dq_def)

lemma valid_exCollected: "validElementsData exCollected = exValid"
  by (simp add: validElementsData_def exCollected_def exValid_def)

lemma filter_exCollected: "filter (\<lambda>r. selector_type r \<noteq> ''none'') exCollected = exValid"
  by (simp add: exCollected_def exValid_def)

lemma specCsv_exValid: "specCsv exValid = exCsv"
  by (simp add: specCsv_def specRow_def quotedField_def exValid_def exCsv_def dq_def nl_def)

lemma decimal_2: "decimal 2 = ''2''"
  by (simp add: decimal.simps char_of_def bit_0)

lemma pageTitle_exPage: "pageTitle exPage = ''sign_up''"
  by (simp add: pageTitle_def isAlnum_def toLowerCase_def lowerChar_def char_of_def bit_0
      orElse_def exPage_def)

lemma no_label_for_empty_exPage: "queryLabelFor exPage [] = Inr None"
  by (simp add: queryLabelFor_def cssPlain_def isLabelFor_def allElements_def exPage_def bare_def lc)

subsection \<open>The generic-text pass\<close>

lemma forEach_total:
  assumes "\<And>x a. x \<in> set xs \<Longrightarrow> f x a = Inr (a @ h x)"
  shows "forEach f xs acc = Inr (acc @ concat (map h xs))"
  using assms
proof (induction xs arbitrary: acc)
  case Nil
  then show ?case by simp
next
  case (Cons x xs)
  have "f x acc = Inr (acc @ h x)" by (rule Cons.prems) simp
  moreover have "forEach f xs (acc @ h x) = Inr ((acc @ h x) @ concat (map h xs))"
    by (rule Cons.IH) (rule Cons.prems, simp)
  ultimately show ?case by simp
qed

lemma concat_map_if: "concat (map (\<lambda>x. if p x then [r x] else []) xs) = map r (filter p xs)"
  by (induction xs) auto

lemma hasDirectText_iff: "hasDirectText x \<longleftrightarrow> (\<exists>s. TextNode s \<in> set (snd x) \<and> trim s \<noteq> [])"
proof
  assume "hasDirectText x"
  then obtain n where n: "n \<in> set (snd x)"
    and c: "case n of TextNode s \<Rightarrow> trim s \<noteq> [] | _ \<Rightarrow> False"
    by (auto simp: hasDirectText_def list_ex_iff)
  show "\<exists>s. TextNode s \<in> set (snd x) \<and> trim s \<noteq> []"
  proof (cases n)
    case (TextNode s)
    with n c show ?thesis by auto
  qed (use c in simp_all)
next
  assume "\<exists>s. TextNode s \<in> set (snd x) \<and> trim s \<noteq> []"
  then obtain s where "TextNode s \<in> set (snd x)" "trim s \<noteq> []" by blast
  then show "hasDirectText x"
    unfolding hasDirectText_def list_ex_iff by (intro bexI [of _ "TextNode s"]) simp_all
qed

lemma matchesAny_important:
  "matchesAny importantSel d \<longleftrightarrow> toLowerCase (tagName (fst d)) \<in> set importantTags"
  by (auto simp: matchesAny_def importantSel_def importantTags_def)

lemma containsImportant_iff:
  "length (elementQuerySelectorAll x importantSel) > 0 \<longleftrightarrow>
   (\<exists>d \<in> set (descendants x). toLowerCase (tagName (fst d)) \<in> set importantTags)"
proof -
  have "length (elementQuerySelectorAll x importantSel) > 0 \<longleftrightarrow>
        (\<exists>d \<in> set (descendants x). matchesAny importantSel d)"
    by (simp add: elementQuerySelectorAll_def filter_empty_conv)
  then show ?thesis by (simp add: matchesAny_important)
qed

lemma staticTextStep_admitted:
  "staticTextStep x acc = Inr (acc @ (if admitted x then [staticRecord x] else []))"
proof (cases "admitted x")
  case True
  then have "hasDirectText x" "trim (elementText x) \<noteq> []" "length (trim (elementText x)) < 200"
    "\<not> length (elementQuerySelectorAll x importantSel) > 0"
    unfolding containsImportant_iff hasDirectText_iff by (auto simp: admitted_def)
  with True show ?thesis
    by (simp add: staticTextStep_def Let_def push_def staticRecord_def)
next
  case False
  then have "\<not> hasDirectText x \<or> trim (elementText x) = [] \<or>
     \<not> length (trim (elementText x)) < 200 \<or> length (elementQuerySelectorAll x importantSel) > 0"
    unfolding containsImportant_iff hasDirectText_iff by (auto simp: admitted_def)
  with False show ?thesis
    by (auto simp: staticTextStep_def Let_def)
qed

lemma matchesAny_staticTexts:
  "matchesAny staticTextsSel x \<longleftrightarrow>
   toLowerCase (tagName (fst x)) \<in> {''p'', ''span'', ''div'', ''label''}"
  by (auto simp: matchesAny_def staticTextsSel_def)

lemma lc2: "toLowerCase ''DIV'' = ''div''" "toLowerCase ''SPAN'' = ''span''" "toLowerCase ''A'' = ''a''"
  by (simp_all add: toLowerCase_def lowerChar_def char_of_def bit_0)

lemma trim_replicate: "\<not> isWhiteSpace c \<Longrightarrow> trim (replicate n c) = replicate n c"
  by (simp add: trim_def)

lemma static_exCards:
  "querySelectorAll exCards staticTextsSel = [exCardDiv, exHelloP, exNavDiv, exLongSpan]"
  by (simp add: querySelectorAll_def allElements_def exCards_def exCardDiv_def exHelloP_def
      exNavDiv_def exLongSpan_def bare_def matchesAny_def staticTextsSel_def lc lc2)

lemma admitted_exCards:
  "\<not> admitted exCardDiv" "admitted exHelloP" "\<not> admitted exNavDiv" "\<not> admitted exLongSpan"
proof -
  show "\<not> admitted exCardDiv"
    by (simp add: admitted_def exCardDiv_def)
  have "trim ''Hello '' \<noteq> []" "trim ''Hello World'' = ''Hello World''"
    by (simp_all add: trim_def isWhiteSpace_def)
  then show "admitted exHelloP"
    by (simp add: admitted_def exHelloP_def elementText_def descendants_def bare_def
        importantTags_def lc)
  show "\<not> admitted exNavDiv"
    by (simp add: admitted_def exNavDiv_def descendants_def bare_def importantTags_def lc2)
  have "\<not> isWhiteSpace (CHR ''x'')" by (simp add: isWhiteSpace_def)
  then show "\<not> admitted exLongSpan"
    by (simp add: admitted_def exLongSpan_def elementText_def trim_replicate)
qed

subsection \<open>The labelled passes\<close>

lemma forEach_appends:
  assumes run: "forEach f xs acc = Inr acc'"
    and step: "\<And>x a a'. x \<in> set xs \<Longrightarrow> f x a = Inr a' \<Longrightarrow> a' = a @ h x"
  shows "acc' = acc @ concat (map h xs)"
  using run step
proof (induction xs arbitrary: acc)
  case Nil
  then show ?case by simp
next
  case (Cons x xs)
  from Cons.prems(1) obtain mid where mid: "f x acc = Inr mid" "forEach f xs mid = Inr acc'"
    by (auto split: sum.splits)
  have m: "mid = acc @ h x"
    by (rule Cons.prems(2) [OF _ mid(1)]) simp
  have "acc' = mid @ concat (map h xs)"
  proof (rule Cons.IH [OF mid(2)])
    fix y a a'
    assume "y \<in> set xs" and fy: "f y a = Inr a'"
    then have "y \<in> set (x # xs)" by simp
    then show "a' = a @ h y" using fy by (rule Cons.prems(2))
  qed
  with m show ?case by simp
qed

lemma queryLabelFor_Inr:
  "queryLabelFor doc i = Inr l \<Longrightarrow> cssPlain i \<and> l = find (isLabelFor i) (allElements doc)"
  by (auto simp: queryLabelFor_def split: if_splits)

lemma checkboxStep_result:
  assumes run: "checkboxStep doc x a = Inr a'"
    and tag: "tagName (fst x) = ''INPUT''"
    and ty: "elType (fst x) = ''checkbox'' \<or> elType (fst x) = ''radio''"
  shows "a' = a @ (if checkboxText doc x \<noteq> [] then [checkboxRecord doc x] else [])"
proof -
  from run obtain l where q: "queryLabelFor doc (elId (fst x)) = Inr l"
    by (auto simp: checkboxStep_def Let_def dest!: andThen_Inr)
  then have l: "l = find (isLabelFor (elId (fst x))) (allElements doc)"
    by (simp add: queryLabelFor_Inr)
  show ?thesis
  proof (cases l)
    case None
    with l have "find (isLabelFor (elId (fst x))) (allElements doc) = None"
      by simp
    then have t: "checkboxText doc x = ''['' @ elType (fst x) @ '']''"
      by (simp add: checkboxText_def labelTextFor_def)
    from ty tag q None have g: "getElementText doc x = Inr (''['' @ elType (fst x) @ '']'')"
      by (auto simp: getElementText_def andThen_def Let_def)
    from run q None g t tag show ?thesis
      by (simp add: checkboxStep_def andThen_def Let_def push_def checkboxRecord_def lc)
  next
    case (Some lab)
    with l have "find (isLabelFor (elId (fst x))) (allElements doc) = Some lab"
      by simp
    then have t: "checkboxText doc x = trim (elementText lab)"
      by (simp add: checkboxText_def labelTextFor_def)
    from run q Some t tag show ?thesis
      by (auto simp: checkboxStep_def andThen_def Let_def push_def checkboxRecord_def lc
               split: if_splits)
  qed
qed

lemma getElementText_text_input:
  assumes "tagName (fst x) = ''INPUT''" and "elType (fst x) \<in> set textTypes"
  shows "getElementText doc x = Inr (orElse (placeholder (fst x)) (''['' @ elType (fst x) @ '' input]''))"
proof -
  from assms(2) have "elType (fst x) \<noteq> ''button''" "elType (fst x) \<noteq> ''submit''"
    "elType (fst x) \<noteq> ''checkbox''" "elType (fst x) \<noteq> ''radio''"
    by (auto simp: textTypes_def)
  with assms(1) show ?thesis
    by (simp add: getElementText_def Let_def)
qed

lemma getElementText_generic:
  assumes "tagName (fst x) \<notin> {''INPUT'', ''SELECT'', ''BUTTON'', ''A''}"
  shows "getElementText doc x = Inr (truncate100 (trim (elementText x)))"
  using assms by (simp add: getElementText_def Let_def)


lemma inputStep_result:
  assumes run: "inputStep doc x a = Inr a'"
    and kind: "(tagName (fst x) = ''INPUT'' \<and> elType (fst x) \<in> set textTypes) \<or>
               tagName (fst x) = ''TEXTAREA''"
  shows "a' = a @ (if inputText doc x \<noteq> [] then [inputRecord doc x] else [])"
proof -
  from run obtain l where q: "queryLabelFor doc (elId (fst x)) = Inr l"
    by (auto simp: inputStep_def Let_def dest!: andThen_Inr)
  then have l: "l = find (isLabelFor (elId (fst x))) (allElements doc)"
    by (simp add: queryLabelFor_Inr)
  show ?thesis
  proof (cases l)
    case None
    with l have f: "find (isLabelFor (elId (fst x))) (allElements doc) = None"
      by simp
    have g: "getElementText doc x = Inr (inputText doc x)"
    proof (cases "tagName (fst x) = ''INPUT''")
      case True
      with kind have "elType (fst x) \<in> set textTypes" by auto
      with True f show ?thesis
        by (simp add: getElementText_text_input inputText_def labelTextFor_def)
    next
      case False
      with kind have "tagName (fst x) = ''TEXTAREA''" by simp
      with f show ?thesis
        by (simp add: getElementText_generic inputText_def labelTextFor_def)
    qed
    from run q None g show ?thesis
      by (simp add: inputStep_def andThen_def Let_def push_def inputRecord_def split: if_splits)
  next
    case (Some lab)
    with l have "find (isLabelFor (elId (fst x))) (allElements doc) = Some lab"
      by simp
    then have t: "inputText doc x = trim (elementText lab)"
      by (simp add: inputText_def labelTextFor_def)
    from run q Some t show ?thesis
      by (simp add: inputStep_def andThen_def Let_def push_def inputRecord_def split: if_splits)
  qed
qed

lemma lc3: "toLowerCase ''radio'' = ''radio''" "toLowerCase ''TEXTAREA'' = ''textarea''"
  "toLowerCase ''text'' = ''text''" "toLowerCase ''password'' = ''password''"
  "toLowerCase ''search'' = ''search''"
  by (simp_all add: toLowerCase_def lowerChar_def char_of_def bit_0)

lemmas eval_defs = querySelectorAll_def allElements_def matchesAny_def bare_def
  queryLabelFor_def cssPlain_def cssSpecial_def isLabelFor_def elementText_def
  getElementText_def getElementIdentifier_def andThen_def push_def typeSuffix_def
  trim_def isWhiteSpace_def orElse_def truncate100_def Let_def lc lc2 lc3

lemma boxes_exChoices:
  "querySelectorAll exChoices checkboxesAndRadiosSel = [exAgreeBox, exOptRadio]"
  by (simp add: exChoices_def exAgreeBox_def exOptRadio_def checkboxesAndRadiosSel_def eval_defs)

lemma run_exChoices:
  "forEach (checkboxStep exChoices) [exAgreeBox, exOptRadio] [] =
     Inr [\<lparr>element_type = ''input[type='' @ [dq] @ ''checkbox'' @ [dq] @ '']'',
           text_content = ''I agree'', selector_type = ''id'', selector_value = ''agree''\<rparr>,
          \<lparr>element_type = ''input[type='' @ [dq] @ ''radio'' @ [dq] @ '']'',
           text_content = ''[radio]'', selector_type = ''class'', selector_value = ''opt''\<rparr>]"
  by (simp add: exChoices_def exAgreeBox_def exOptRadio_def checkboxStep_def eval_defs)

lemma inputs_exLogin:
  "querySelectorAll exLogin inputsSel = [exUserInput, exPwInput, exSearchInput, exBioArea]"
  by (simp add: exLogin_def exUserInput_def exPwInput_def exSearchInput_def exBioArea_def
      inputsSel_def eval_defs)

lemma run_exLogin:
  "forEach (inputStep exLogin) [exUserInput, exPwInput, exSearchInput, exBioArea] [] =
     Inr exLoginRecords"
  by (simp add: exLogin_def exUserInput_def exPwInput_def exSearchInput_def exBioArea_def
      exLoginRecords_def inputStep_def eval_defs)









lemma collect_exQuoted: "collect exQuoted = Inl SelectorFault"
  by (simp add: collect_def exQuoted_def buttonsSel_def inputsSel_def inputStep_def dq_def
      eval_defs)

lemma plain_exPage: "\<forall>x \<in> set (allElements exPage). cssPlain (elId (fst x))"
  by (simp add: allElements_def exPage_def bare_def cssPlain_def cssSpecial_def)

subsection \<open>The labelled passes on plain ids\<close>

lemma checkboxStep_plain:
  assumes plain: "cssPlain (elId (fst x))"
    and tag: "tagName (fst x) = ''INPUT''"
    and ty: "elType (fst x) = ''checkbox'' \<or> elType (fst x) = ''radio''"
  shows "checkboxStep doc x a =
           Inr (a @ (if checkboxText doc x \<noteq> [] then [checkboxRecord doc x] else []))"
proof -
  from steps_complete(3) [OF plain] obtain a' where r: "checkboxStep doc x a = Inr a'"
    by blast
  from checkboxStep_result [OF r tag ty] r show ?thesis by simp
qed

lemma inputStep_plain:
  assumes plain: "cssPlain (elId (fst x))"
    and kind: "(tagName (fst x) = ''INPUT'' \<and> elType (fst x) \<in> set textTypes) \<or>
               tagName (fst x) = ''TEXTAREA''"
  shows "inputStep doc x a =
           Inr (a @ (if inputText doc x \<noteq> [] then [inputRecord doc x] else []))"
proof -
  from steps_complete(2) [OF plain] obtain a' where r: "inputStep doc x a = Inr a'"
    by blast
  from inputStep_result [OF r kind] r show ?thesis by simp
qed

subsection \<open>Long texts\<close>



subsection \<open>Identifier resolution\<close>

text \<open>
  C1. A node with a non-empty id resolves to kind \<open>id\<close> with that id as value,
  whatever its class. Otherwise, a node whose class is a string with a non-empty
  trimmed form resolves to kind \<open>class\<close> with the trimmed class string. Otherwise
  it resolves to kind \<open>none\<close> with the value \<open>no-id-or-class\<close>.
  \<^const>\<open>getElementIdentifier\<close> is a total function into \<^typ>\<open>ident\<close>: it has no
  fault to return.
\<close>

theorem getElementIdentifier_resolution:
  "(elId e \<noteq> [] \<longrightarrow>
      getElementIdentifier e = \<lparr>ident_type = ''id'', ident_value = elId e\<rparr>) \<and>
   (elId e = [] \<and> className e = ClassString c \<and> trim c \<noteq> [] \<longrightarrow>
      getElementIdentifier e = \<lparr>ident_type = ''class'', ident_value = trim c\<rparr>) \<and>
   (elId e = [] \<and> (\<forall>c. className e = ClassString c \<longrightarrow> trim c = []) \<longrightarrow>
      getElementIdentifier e = \<lparr>ident_type = ''none'', ident_value = ''no-id-or-class''\<rparr>)"
proof (intro conjI impI)
  assume "elId e \<noteq> []"
  then show "getElementIdentifier e = \<lparr>ident_type = ''id'', ident_value = elId e\<rparr>"
    by (simp add: getElementIdentifier_def)
next
  assume "elId e = [] \<and> className e = ClassString c \<and> trim c \<noteq> []"
  moreover from this have "c \<noteq> []" using trim_Nil by blast
  ultimately show "getElementIdentifier e = \<lparr>ident_type = ''class'', ident_value = trim c\<rparr>"
    by (simp add: getElementIdentifier_def)
next
  assume a: "elId e = [] \<and> (\<forall>c. className e = ClassString c \<longrightarrow> trim c = [])"
  show "getElementIdentifier e = \<lparr>ident_type = ''none'', ident_value = ''no-id-or-class''\<rparr>"
  proof (cases "className e")
    case (ClassString c)
    with a have "trim c = []" by simp
    with a ClassString show ?thesis by (simp add: getElementIdentifier_def)
  next
    case ClassObject
    with a show ?thesis by (simp add: getElementIdentifier_def)
  qed
qed

theorem getElementIdentifier_resolution_witness:
  "getElementIdentifier exIdAndClass = \<lparr>ident_type = ''id'', ident_value = ''submit-btn''\<rparr> \<and>
   getElementIdentifier exClassOnly = \<lparr>ident_type = ''class'', ident_value = ''card''\<rparr> \<and>
   getElementIdentifier exBlankClass = \<lparr>ident_type = ''none'', ident_value = ''no-id-or-class''\<rparr>"
proof -
  have t1: "trim ''  card '' = ''card''" and t2: "trim ''   '' = []"
    by (simp_all add: trim_def isWhiteSpace_def)
  have "elId exIdAndClass \<noteq> []"
    by (simp add: exIdAndClass_def bare_def)
  with getElementIdentifier_resolution [of exIdAndClass]
  have a: "getElementIdentifier exIdAndClass = \<lparr>ident_type = ''id'', ident_value = ''submit-btn''\<rparr>"
    by (simp add: exIdAndClass_def bare_def)
  have "elId exClassOnly = [] \<and> className exClassOnly = ClassString ''  card '' \<and>
        trim ''  card '' \<noteq> []"
    by (simp add: exClassOnly_def bare_def t1)
  with getElementIdentifier_resolution [of exClassOnly "''  card ''"]
  have b: "getElementIdentifier exClassOnly = \<lparr>ident_type = ''class'', ident_value = ''card''\<rparr>"
    by (simp add: t1)
  have "elId exBlankClass = [] \<and> (\<forall>c. className exBlankClass = ClassString c \<longrightarrow> trim c = [])"
    by (simp add: exBlankClass_def bare_def t2)
  with getElementIdentifier_resolution [of exBlankClass]
  have c: "getElementIdentifier exBlankClass =
             \<lparr>ident_type = ''none'', ident_value = ''no-id-or-class''\<rparr>"
    by blast
  from a b c show ?thesis by simp
qed

subsection \<open>Filtering\<close>

text \<open>
  C2. The downloaded CSV is the header followed by one row for each record of
  \<^const>\<open>validElementsData\<close> applied to the collected sequence, and none of those
  records has selector kind \<open>none\<close>. A collected record of kind \<open>none\<close> is not among
  them, and its row is not among the rows written, although the collected
  sequence (the value returned) holds it.
\<close>

theorem none_records_filtered:
  assumes "extractImportantElements isoNow doc = Inr out"
  shows "downloadContent out = csvHeader @ concat (map csvRow (validElementsData (returned out))) \<and>
         (\<forall>r \<in> set (validElementsData (returned out)).
            r \<in> set (returned out) \<and> selector_type r \<noteq> ''none'') \<and>
         (\<forall>r \<in> set (returned out). selector_type r = ''none'' \<longrightarrow>
            r \<notin> set (validElementsData (returned out)) \<and>
            csvRow r \<notin> set (map csvRow (validElementsData (returned out))))"
proof (intro conjI ballI impI)
  show "downloadContent out = csvHeader @ concat (map csvRow (validElementsData (returned out)))"
    using extract_Inr(2) [OF assms] by (simp add: toCsv_rows)
next
  fix r assume "r \<in> set (validElementsData (returned out))"
  then show "r \<in> set (returned out)" and "selector_type r \<noteq> ''none''"
    by (simp_all add: validElementsData_def)
next
  fix r :: elementData
  assume n: "selector_type r = ''none''"
  then show a: "r \<notin> set (validElementsData (returned out))"
    by (simp add: validElementsData_def)
  show "csvRow r \<notin> set (map csvRow (validElementsData (returned out)))"
  proof
    assume "csvRow r \<in> set (map csvRow (validElementsData (returned out)))"
    then obtain r' where "r' \<in> set (validElementsData (returned out))" "csvRow r = csvRow r'"
      by auto
    with csvRow_inj [of r r'] a show False by simp
  qed
qed

theorem none_records_filtered_witness:
  "\<exists>out. extractImportantElements exNow exPage = Inr out \<and>
     returned out = exCollected \<and>
     validElementsData (returned out) = exValid \<and>
     downloadContent out = csvHeader @ concat (map csvRow exValid) \<and>
     list_all (\<lambda>r. selector_type r \<noteq> ''none'') exValid \<and>
     selector_type (exCollected ! 4) = ''none'' \<and>
     exCollected ! 4 \<notin> set exValid \<and>
     csvRow (exCollected ! 4) \<notin> set (map csvRow exValid)"
proof -
  obtain out where run: "extractImportantElements exNow exPage = Inr out"
    using extract_of_collect [OF collect_exPage] by blast
  have ret: "returned out = exCollected"
    using extract_Inr(1) [OF run] collect_exPage by simp
  have v: "validElementsData (returned out) = exValid"
    by (simp add: ret valid_exCollected)
  note inst = none_records_filtered [OF run, unfolded ret valid_exCollected]
  have n: "selector_type (exCollected ! 4) = ''none''" and m: "exCollected ! 4 \<in> set exCollected"
    by (simp_all add: exCollected_def)
  from inst have a: "downloadContent out = csvHeader @ concat (map csvRow exValid)"
    by (rule conjunct1)
  from inst have "\<forall>r \<in> set exValid. r \<in> set exCollected \<and> selector_type r \<noteq> ''none''"
    by blast
  then have b: "list_all (\<lambda>r. selector_type r \<noteq> ''none'') exValid"
    by (simp add: list_all_iff)
  from inst n m have c: "exCollected ! 4 \<notin> set exValid \<and>
      csvRow (exCollected ! 4) \<notin> set (map csvRow exValid)"
    by blast
  from run ret v a b n c show ?thesis by blast
qed

subsection \<open>Truncation\<close>




subsection \<open>Serialization\<close>

text \<open>
  C4. The downloaded CSV is the header line
  \<open>Element Type,Text Content,Selector Type,Selector Value\<close> followed, for each
  collected record that survives the none-filter and in the order collected, by
  one row of the four fields element type, text content, selector kind and
  selector value, separated by commas, each field enclosed in double quotes with
  every double quote inside it doubled; the header and every row end with a
  newline. The run completes, and writes this file, whenever no id in the document
  holds a character that is special inside a quoted CSS string.
\<close>

theorem csv_serialization:
  "(extractImportantElements isoNow doc = Inr out \<longrightarrow>
      downloadContent out =
        specCsv (filter (\<lambda>r. selector_type r \<noteq> ''none'') (returned out))) \<and>
   ((\<forall>x \<in> set (allElements doc). cssPlain (elId (fst x))) \<longrightarrow>
      (\<exists>out. extractImportantElements isoNow doc = Inr out))"
proof (intro conjI impI)
  assume run: "extractImportantElements isoNow doc = Inr out"
  show "downloadContent out =
        specCsv (filter (\<lambda>r. selector_type r \<noteq> ''none'') (returned out))"
    using extract_Inr(2) [OF run] by (simp add: toCsv_specCsv validElementsData_def)
next
  assume "\<forall>x \<in> set (allElements doc). cssPlain (elId (fst x))"
  then obtain ds where "collect doc = Inr ds"
    using collect_completes by blast
  then show "\<exists>out. extractImportantElements isoNow doc = Inr out"
    by (rule extract_of_collect)
qed

theorem csv_serialization_witness:
  "list_all (\<lambda>x. cssPlain (elId (fst x))) (allElements exPage) \<and>
   (\<exists>out. extractImportantElements exNow exPage = Inr out \<and>
      returned out = exCollected \<and> downloadContent out = exCsv)"
proof -
  have plain: "list_all (\<lambda>x. cssPlain (elId (fst x))) (allElements exPage)"
    using plain_exPage by (simp add: list_all_iff)
  from csv_serialization [of exNow exPage] plain_exPage
  obtain out where run: "extractImportantElements exNow exPage = Inr out"
    by blast
  have ret: "returned out = exCollected"
    using extract_Inr(1) [OF run] collect_exPage by simp
  from csv_serialization [of exNow exPage out] run
  have "downloadContent out =
        specCsv (filter (\<lambda>r. selector_type r \<noteq> ''none'') (returned out))"
    by blast
  then have "downloadContent out = exCsv"
    by (simp add: ret filter_exCollected specCsv_exValid)
  with plain run ret show ?thesis by blast
qed

subsection \<open>Text inputs\<close>

text \<open>
  C5, as stated, fails: the form-inputs pass looks for a label first, and a
  textarea is not read for its placeholder. On the login form the text input with
  placeholder \<open>Enter name\<close> is recorded as \<open>Username\<close>, and the textarea with
  placeholder \<open>Your bio\<close> as \<open>Hello\<close>.
\<close>

theorem text_input_labeling_counterexample:
  "querySelectorAll exLogin inputsSel = [exUserInput, exPwInput, exSearchInput, exBioArea] \<and>
   forEach (inputStep exLogin) [exUserInput, exPwInput, exSearchInput, exBioArea] [] =
     Inr exLoginRecords \<and>
   placeholder (fst exUserInput) = ''Enter name'' \<and>
   text_content (exLoginRecords ! 0) = ''Username'' \<and>
   placeholder (fst exBioArea) = ''Your bio'' \<and>
   text_content (exLoginRecords ! 3) = ''Hello''"
proof -
  have "placeholder (fst exUserInput) = ''Enter name''"
    "text_content (exLoginRecords ! 0) = ''Username''"
    "placeholder (fst exBioArea) = ''Your bio''"
    "text_content (exLoginRecords ! 3) = ''Hello''"
    by (simp_all add: exUserInput_def exBioArea_def exLoginRecords_def bare_def)
  with inputs_exLogin run_exLogin show ?thesis by blast
qed

text \<open>
  C5, amended. Take a document in which every element the form-inputs pass
  matches has an id that holds no double quote, backslash, line break or NUL, and
  is either an HTML \<^verbatim>\<open>input\<close> (\<^verbatim>\<open>tagName\<close> \<open>INPUT\<close>) whose \<^verbatim>\<open>type\<close> property is
  text, password, email, number, search, tel or url, or an HTML \<^verbatim>\<open>textarea\<close>
  (\<^verbatim>\<open>tagName\<close> \<open>TEXTAREA\<close>). Then the pass completes, and its records are, in
  document order, those of the matched elements whose text is non-empty, where
  the text is the trimmed text of the first label element whose \<^verbatim>\<open>for\<close>
  attribute equals the element's id when there is such a label; otherwise, for an
  \<^verbatim>\<open>input\<close>, the placeholder if non-empty, else the bracketed fallback naming the
  subtype (such as \<open>[text input]\<close>); and for a \<^verbatim>\<open>textarea\<close> its own trimmed text
  content, cut to 100 characters and \<open>...\<close> when longer.
\<close>

theorem text_input_labeling:
  assumes plain: "\<forall>x \<in> set (querySelectorAll doc inputsSel). cssPlain (elId (fst x))"
    and kinds: "\<forall>x \<in> set (querySelectorAll doc inputsSel).
           (tagName (fst x) = ''INPUT'' \<and> elType (fst x) \<in> set textTypes) \<or>
           tagName (fst x) = ''TEXTAREA''"
  shows "forEach (inputStep doc) (querySelectorAll doc inputsSel) acc =
           Inr (acc @ map (inputRecord doc)
             (filter (\<lambda>x. inputText doc x \<noteq> []) (querySelectorAll doc inputsSel)))"
proof -
  have "forEach (inputStep doc) (querySelectorAll doc inputsSel) acc =
          Inr (acc @ concat (map (\<lambda>x. if inputText doc x \<noteq> [] then [inputRecord doc x] else [])
            (querySelectorAll doc inputsSel)))"
  proof (rule forEach_total)
    fix x a
    assume "x \<in> set (querySelectorAll doc inputsSel)"
    with plain kinds
    show "inputStep doc x a =
            Inr (a @ (if inputText doc x \<noteq> [] then [inputRecord doc x] else []))"
      by (intro inputStep_plain) auto
  qed
  then show ?thesis by (simp only: concat_map_if)
qed

theorem text_input_labeling_witness:
  "querySelectorAll exLogin inputsSel = [exUserInput, exPwInput, exSearchInput, exBioArea] \<and>
   list_all (\<lambda>x. cssPlain (elId (fst x))) [exUserInput, exPwInput, exSearchInput, exBioArea] \<and>
   map (inputText exLogin) [exUserInput, exPwInput, exSearchInput, exBioArea] =
     [''Username'', ''Secret'', ''[search input]'', ''Hello''] \<and>
   forEach (inputStep exLogin) (querySelectorAll exLogin inputsSel) [] = Inr exLoginRecords"
proof -
  have t: "map (inputText exLogin) [exUserInput, exPwInput, exSearchInput, exBioArea] =
     [''Username'', ''Secret'', ''[search input]'', ''Hello'']"
    by (simp add: inputText_def labelTextFor_def exLogin_def exUserInput_def exPwInput_def
        exSearchInput_def exBioArea_def eval_defs)
  have r: "map (inputRecord exLogin) [exUserInput, exPwInput, exSearchInput, exBioArea] =
     exLoginRecords"
    by (simp add: inputRecord_def inputText_def labelTextFor_def exLogin_def exUserInput_def
        exPwInput_def exSearchInput_def exBioArea_def exLoginRecords_def eval_defs)
  have p: "list_all (\<lambda>x. cssPlain (elId (fst x)))
             [exUserInput, exPwInput, exSearchInput, exBioArea]"
    by (simp add: exUserInput_def exPwInput_def exSearchInput_def exBioArea_def bare_def
        cssPlain_def cssSpecial_def)
  then have plain: "\<forall>x \<in> set (querySelectorAll exLogin inputsSel). cssPlain (elId (fst x))"
    by (simp add: inputs_exLogin)
  have kinds: "\<forall>x \<in> set (querySelectorAll exLogin inputsSel).
           (tagName (fst x) = ''INPUT'' \<and> elType (fst x) \<in> set textTypes) \<or>
           tagName (fst x) = ''TEXTAREA''"
    by (simp add: inputs_exLogin exUserInput_def exPwInput_def exSearchInput_def exBioArea_def
        bare_def textTypes_def)
  have f: "filter (\<lambda>x. inputText exLogin x \<noteq> [])
             [exUserInput, exPwInput, exSearchInput, exBioArea] =
           [exUserInput, exPwInput, exSearchInput, exBioArea]"
    using t by simp
  from text_input_labeling [OF plain kinds, of "[]"]
  have "forEach (inputStep exLogin) (querySelectorAll exLogin inputsSel) [] = Inr exLoginRecords"
    by (simp only: inputs_exLogin f r append_Nil)
  with inputs_exLogin p t show ?thesis by (simp only: simp_thms)
qed

subsection \<open>Checkboxes and radio buttons\<close>

text \<open>
  C6, as stated, fails in its last part: an input without id reads as the empty
  id, and the query \<^verbatim>\<open>label[for=""]\<close> finds a label whose \<^verbatim>\<open>for\<close> attribute is
  empty. The checkbox below has no id and is recorded as \<open>Accept terms\<close>, not as
  \<open>[checkbox]\<close>.
\<close>

theorem checkbox_without_id_counterexample:
  "elId (fst exTosBox) = [] \<and>
   querySelectorAll exBlankFor checkboxesAndRadiosSel = [exTosBox] \<and>
   forEach (checkboxStep exBlankFor) [exTosBox] [] =
     Inr [\<lparr>element_type = ''input[type='' @ [dq] @ ''checkbox'' @ [dq] @ '']'',
           text_content = ''Accept terms'', selector_type = ''class'', selector_value = ''tos''\<rparr>]"
  by (simp add: exBlankFor_def exTosBox_def checkboxStep_def checkboxesAndRadiosSel_def eval_defs)

text \<open>
  C6, amended. Take a document in which every element the checkbox/radio pass
  matches is an HTML \<^verbatim>\<open>input\<close> (\<^verbatim>\<open>tagName\<close> \<open>INPUT\<close>) whose \<^verbatim>\<open>type\<close> property is
  checkbox or radio and whose id holds no double quote, backslash, line break or
  NUL. Then the pass completes, and its records are, in document order, those of
  the matched inputs whose text is non-empty, where the text is the trimmed text
  of the first label element whose \<^verbatim>\<open>for\<close> attribute equals the input's id (the
  empty string for an input without id, so that a label with an empty \<^verbatim>\<open>for\<close>
  attribute is associated with it) when there is such a label, and the bracketed
  fallback naming the subtype (\<open>[checkbox]\<close>, \<open>[radio]\<close>) otherwise.
\<close>

theorem checkbox_labeling:
  assumes plain: "\<forall>x \<in> set (querySelectorAll doc checkboxesAndRadiosSel).
           cssPlain (elId (fst x))"
    and inputs: "\<forall>x \<in> set (querySelectorAll doc checkboxesAndRadiosSel).
           tagName (fst x) = ''INPUT'' \<and> (elType (fst x) = ''checkbox'' \<or> elType (fst x) = ''radio'')"
  shows "forEach (checkboxStep doc) (querySelectorAll doc checkboxesAndRadiosSel) acc =
           Inr (acc @ map (checkboxRecord doc)
             (filter (\<lambda>x. checkboxText doc x \<noteq> [])
                (querySelectorAll doc checkboxesAndRadiosSel)))"
proof -
  have "forEach (checkboxStep doc) (querySelectorAll doc checkboxesAndRadiosSel) acc =
          Inr (acc @ concat
            (map (\<lambda>x. if checkboxText doc x \<noteq> [] then [checkboxRecord doc x] else [])
               (querySelectorAll doc checkboxesAndRadiosSel)))"
  proof (rule forEach_total)
    fix x a
    assume "x \<in> set (querySelectorAll doc checkboxesAndRadiosSel)"
    with plain inputs
    show "checkboxStep doc x a =
            Inr (a @ (if checkboxText doc x \<noteq> [] then [checkboxRecord doc x] else []))"
      by (intro checkboxStep_plain) auto
  qed
  then show ?thesis by (simp only: concat_map_if)
qed

theorem checkbox_labeling_witness:
  "querySelectorAll exChoices checkboxesAndRadiosSel = [exAgreeBox, exOptRadio] \<and>
   list_all (\<lambda>x. cssPlain (elId (fst x))) [exAgreeBox, exOptRadio] \<and>
   checkboxText exChoices exAgreeBox = ''I agree'' \<and>
   checkboxText exChoices exOptRadio = ''[radio]'' \<and>
   forEach (checkboxStep exChoices) (querySelectorAll exChoices checkboxesAndRadiosSel) [] =
     Inr [\<lparr>element_type = ''input[type='' @ [dq] @ ''checkbox'' @ [dq] @ '']'',
           text_content = ''I agree'', selector_type = ''id'', selector_value = ''agree''\<rparr>,
          \<lparr>element_type = ''input[type='' @ [dq] @ ''radio'' @ [dq] @ '']'',
           text_content = ''[radio]'', selector_type = ''class'', selector_value = ''opt''\<rparr>]"
proof -
  have t: "checkboxText exChoices exAgreeBox = ''I agree''"
    "checkboxText exChoices exOptRadio = ''[radio]''"
    by (simp_all add: checkboxText_def labelTextFor_def exChoices_def exAgreeBox_def
        exOptRadio_def eval_defs)
  have r: "map (checkboxRecord exChoices) [exAgreeBox, exOptRadio] =
     [\<lparr>element_type = ''input[type='' @ [dq] @ ''checkbox'' @ [dq] @ '']'',
       text_content = ''I agree'', selector_type = ''id'', selector_value = ''agree''\<rparr>,
      \<lparr>element_type = ''input[type='' @ [dq] @ ''radio'' @ [dq] @ '']'',
       text_content = ''[radio]'', selector_type = ''class'', selector_value = ''opt''\<rparr>]"
    by (simp add: checkboxRecord_def checkboxText_def labelTextFor_def exChoices_def
        exAgreeBox_def exOptRadio_def eval_defs)
  have p: "list_all (\<lambda>x. cssPlain (elId (fst x))) [exAgreeBox, exOptRadio]"
    by (simp add: exAgreeBox_def exOptRadio_def bare_def cssPlain_def cssSpecial_def)
  then have plain: "\<forall>x \<in> set (querySelectorAll exChoices checkboxesAndRadiosSel).
           cssPlain (elId (fst x))"
    by (simp add: boxes_exChoices)
  have kinds: "\<forall>x \<in> set (querySelectorAll exChoices checkboxesAndRadiosSel).
           tagName (fst x) = ''INPUT'' \<and> (elType (fst x) = ''checkbox'' \<or> elType (fst x) = ''radio'')"
    by (simp add: boxes_exChoices exAgreeBox_def exOptRadio_def bare_def)
  have f: "filter (\<lambda>x. checkboxText exChoices x \<noteq> []) [exAgreeBox, exOptRadio] =
           [exAgreeBox, exOptRadio]"
    using t by simp
  from checkbox_labeling [OF plain kinds, of "[]"]
  have "forEach (checkboxStep exChoices) (querySelectorAll exChoices checkboxesAndRadiosSel) [] =
     Inr [\<lparr>element_type = ''input[type='' @ [dq] @ ''checkbox'' @ [dq] @ '']'',
           text_content = ''I agree'', selector_type = ''id'', selector_value = ''agree''\<rparr>,
          \<lparr>element_type = ''input[type='' @ [dq] @ ''radio'' @ [dq] @ '']'',
           text_content = ''[radio]'', selector_type = ''class'', selector_value = ''opt''\<rparr>]"
    by (simp only: boxes_exChoices f r append_Nil)
  with boxes_exChoices p t show ?thesis by (simp only: simp_thms)
qed

subsection \<open>Admission to the generic-text pass\<close>

text \<open>
  C7. The generic-text pass ranges over the paragraph, span, div and label
  elements of the document, and such an element yields a record exactly when it
  is \<^const>\<open>admitted\<close>: (a) one of its direct children is a text node with non-empty
  trimmed content, (b) its own trimmed text is non-empty and shorter than 200
  characters, and (c) none of its descendants is a button, input, select, link or
  heading. An element failing one of the three yields nothing.
\<close>

theorem static_text_admission:
  "staticTextStep x acc = Inr (if admitted x then acc @ [staticRecord x] else acc) \<and>
   set (querySelectorAll doc staticTextsSel) =
     {x \<in> set (allElements doc). toLowerCase (tagName (fst x)) \<in> {''p'', ''span'', ''div'', ''label''}} \<and>
   forEach staticTextStep (querySelectorAll doc staticTextsSel) acc =
     Inr (acc @ map staticRecord (filter admitted (querySelectorAll doc staticTextsSel)))"
proof (intro conjI)
  show "staticTextStep x acc = Inr (if admitted x then acc @ [staticRecord x] else acc)"
    by (simp add: staticTextStep_admitted)
  show "set (querySelectorAll doc staticTextsSel) =
     {x \<in> set (allElements doc). toLowerCase (tagName (fst x)) \<in> {''p'', ''span'', ''div'', ''label''}}"
    by (simp add: querySelectorAll_def matchesAny_staticTexts)
  have "forEach staticTextStep (querySelectorAll doc staticTextsSel) acc =
     Inr (acc @ concat (map (\<lambda>x. if admitted x then [staticRecord x] else [])
        (querySelectorAll doc staticTextsSel)))"
    by (rule forEach_total) (rule staticTextStep_admitted)
  then show "forEach staticTextStep (querySelectorAll doc staticTextsSel) acc =
     Inr (acc @ map staticRecord (filter admitted (querySelectorAll doc staticTextsSel)))"
    by (simp add: concat_map_if)
qed

theorem static_text_admission_witness:
  "querySelectorAll exCards staticTextsSel = [exCardDiv, exHelloP, exNavDiv, exLongSpan] \<and>
   filter admitted [exCardDiv, exHelloP, exNavDiv, exLongSpan] = [exHelloP] \<and>
   forEach staticTextStep (querySelectorAll exCards staticTextsSel) [] =
     Inr [\<lparr>element_type = ''p'', text_content = ''Hello World'',
           selector_type = ''id'', selector_value = ''hello''\<rparr>]"
proof -
  have f: "filter admitted [exCardDiv, exHelloP, exNavDiv, exLongSpan] = [exHelloP]"
    by (simp add: admitted_exCards)
  have r: "staticRecord exHelloP =
     \<lparr>element_type = ''p'', text_content = ''Hello World'',
      selector_type = ''id'', selector_value = ''hello''\<rparr>"
    by (simp add: staticRecord_def exHelloP_def elementText_def getElementIdentifier_def bare_def
        lc trim_def isWhiteSpace_def)
  from static_text_admission [of exHelloP "[]" exCards]
  have "forEach staticTextStep (querySelectorAll exCards staticTextsSel) [] =
     Inr ([] @ map staticRecord (filter admitted (querySelectorAll exCards staticTextsSel)))"
    by blast
  then have "forEach staticTextStep (querySelectorAll exCards staticTextsSel) [] =
     Inr [\<lparr>element_type = ''p'', text_content = ''Hello World'',
           selector_type = ''id'', selector_value = ''hello''\<rparr>]"
    by (simp only: static_exCards f r list.map append_Nil)
  with static_exCards f show ?thesis by (simp only: simp_thms)
qed

subsection \<open>Non-empty text\<close>

text \<open>
  C8. Every record the eight collection passes append has a non-empty text. In
  particular a select with no associated label and no option, that is with an
  empty \<^verbatim>\<open>options\<close> collection, appends no record.
\<close>

theorem collected_text_nonempty:
  "(collect doc = Inr elementsData \<longrightarrow> (\<forall>r \<in> set elementsData. text_content r \<noteq> [])) \<and>
   (tagName (fst x) = ''SELECT'' \<and> queryLabelFor doc (elId (fst x)) = Inr None \<and>
    elOptions (fst x) = [] \<longrightarrow> selectStep doc x acc = Inr acc)"
proof (intro conjI impI)
  assume "collect doc = Inr elementsData"
  then have "textsNonEmpty elementsData" by (rule collect_textsNonEmpty)
  then show "\<forall>r \<in> set elementsData. text_content r \<noteq> []"
    by (simp add: textsNonEmpty_def list_all_iff)
next
  assume "tagName (fst x) = ''SELECT'' \<and> queryLabelFor doc (elId (fst x)) = Inr None \<and>
    elOptions (fst x) = []"
  then show "selectStep doc x acc = Inr acc"
    by (simp add: selectStep_def getElementText_def andThen_def truncate100_def Let_def)
qed

theorem collected_text_nonempty_witness:
  "collect exPage = Inr exCollected \<and>
   list_all (\<lambda>r. text_content r \<noteq> []) exCollected \<and>
   elOptions (fst exEmptySelect) = [] \<and>
   selectStep exPage exEmptySelect exCollected = Inr exCollected"
proof -
  note inst = collected_text_nonempty [of exPage exCollected exEmptySelect exCollected]
  from inst collect_exPage have "\<forall>r \<in> set exCollected. text_content r \<noteq> []"
    by blast
  then have a: "list_all (\<lambda>r. text_content r \<noteq> []) exCollected"
    by (simp add: list_all_iff)
  have o: "elOptions (fst exEmptySelect) = []"
    by (simp add: exEmptySelect_def bare_def)
  have "tagName (fst exEmptySelect) = ''SELECT'' \<and>
        queryLabelFor exPage (elId (fst exEmptySelect)) = Inr None"
    by (simp add: exEmptySelect_def bare_def no_label_for_empty_exPage)
  with inst o have "selectStep exPage exEmptySelect exCollected = Inr exCollected"
    by blast
  with collect_exPage a o show ?thesis by simp
qed

subsection \<open>Running twice\<close>

text \<open>
  C9. A run leaves the document as it found it, and a second run on it, at any
  later moment, downloads the same CSV content and returns the same records. The
  two file names differ at most in the date: each is the sanitized title, then
  \<open>_elements_\<close>, the first ten characters of the ISO time stamp and \<open>.csv\<close>. A run
  that stops with a fault stops with the same fault whenever it is repeated.
\<close>

theorem rerun_same_csv:
  "(extractImportantElements now1 doc = Inl f \<longrightarrow>
      extractImportantElements now2 doc = Inl f) \<and>
   (extractImportantElements now1 doc = Inr out1 \<longrightarrow>
      documentAfter out1 = doc \<and>
      downloadName out1 = pageTitle doc @ ''_elements_'' @ take 10 now1 @ ''.csv'' \<and>
      (\<exists>out2. extractImportantElements now2 (documentAfter out1) = Inr out2 \<and>
         downloadContent out2 = downloadContent out1 \<and>
         returned out2 = returned out1 \<and>
         documentAfter out2 = doc \<and>
         downloadName out2 = pageTitle doc @ ''_elements_'' @ take 10 now2 @ ''.csv''))"
proof (intro conjI impI)
  assume "extractImportantElements now1 doc = Inl f"
  then have "collect doc = Inl f" by (simp add: extract_Inl)
  then show "extractImportantElements now2 doc = Inl f" by (simp add: extract_Inl)
next
  assume run: "extractImportantElements now1 doc = Inr out1"
  show "documentAfter out1 = doc"
    using extract_Inr(4) [OF run] by (simp add: document_restored)
  show "downloadName out1 = pageTitle doc @ ''_elements_'' @ take 10 now1 @ ''.csv''"
    using extract_Inr(3) [OF run] by (simp add: fileName_def)
  have d1: "documentAfter out1 = doc"
    using extract_Inr(4) [OF run] by (simp add: document_restored)
  from extract_Inr(1) [OF run] obtain out2
    where r2: "extractImportantElements now2 doc = Inr out2"
    using extract_of_collect by blast
  have "returned out2 = returned out1"
    using extract_Inr(1) [OF run] extract_Inr(1) [OF r2] by simp
  moreover from this have "downloadContent out2 = downloadContent out1"
    using extract_Inr(2) [OF run] extract_Inr(2) [OF r2] by simp
  moreover have "documentAfter out2 = doc"
    using extract_Inr(4) [OF r2] by (simp add: document_restored)
  moreover have "downloadName out2 = pageTitle doc @ ''_elements_'' @ take 10 now2 @ ''.csv''"
    using extract_Inr(3) [OF r2] by (simp add: fileName_def)
  ultimately show "\<exists>out2. extractImportantElements now2 (documentAfter out1) = Inr out2 \<and>
         downloadContent out2 = downloadContent out1 \<and>
         returned out2 = returned out1 \<and>
         documentAfter out2 = doc \<and>
         downloadName out2 = pageTitle doc @ ''_elements_'' @ take 10 now2 @ ''.csv''"
    using d1 r2 by auto
qed

theorem rerun_same_csv_witness:
  "(\<exists>out1 out2. extractImportantElements exNow exPage = Inr out1 \<and>
     extractImportantElements exLater (documentAfter out1) = Inr out2 \<and>
     documentAfter out1 = exPage \<and>
     downloadContent out2 = downloadContent out1 \<and>
     returned out2 = returned out1 \<and>
     downloadName out1 = ''sign_up_elements_2026-11-03.csv'' \<and>
     downloadName out2 = ''sign_up_elements_2026-11-04.csv'') \<and>
   extractImportantElements exNow exQuoted = Inl SelectorFault \<and>
   extractImportantElements exLater exQuoted = Inl SelectorFault"
proof -
  obtain out1 where run: "extractImportantElements exNow exPage = Inr out1"
    using extract_of_collect [OF collect_exPage] by blast
  from rerun_same_csv [of exNow exPage _ exLater out1] run obtain out2 where
    "documentAfter out1 = exPage"
    "downloadName out1 = pageTitle exPage @ ''_elements_'' @ take 10 exNow @ ''.csv''"
    "extractImportantElements exLater (documentAfter out1) = Inr out2"
    "downloadContent out2 = downloadContent out1"
    "returned out2 = returned out1"
    "downloadName out2 = pageTitle exPage @ ''_elements_'' @ take 10 exLater @ ''.csv''"
    by blast
  with run have a: "\<exists>out1 out2. extractImportantElements exNow exPage = Inr out1 \<and>
     extractImportantElements exLater (documentAfter out1) = Inr out2 \<and>
     documentAfter out1 = exPage \<and>
     downloadContent out2 = downloadContent out1 \<and>
     returned out2 = returned out1 \<and>
     downloadName out1 = ''sign_up_elements_2026-11-03.csv'' \<and>
     downloadName out2 = ''sign_up_elements_2026-11-04.csv''"
    by (simp add: pageTitle_exPage exNow_def exLater_def)
  have b: "extractImportantElements exNow exQuoted = Inl SelectorFault"
    by (simp add: extract_Inl collect_exQuoted)
  with rerun_same_csv [of exNow exQuoted SelectorFault exLater]
  have c: "extractImportantElements exLater exQuoted = Inl SelectorFault"
    by blast
  from a b c show ?thesis by blast
qed

subsection \<open>The value returned\<close>

text \<open>
  C10. \<^const>\<open>extractImportantElements\<close> returns the whole collected sequence,
  records of kind \<open>none\<close> included. The CSV holds one row for each record of
  another kind, and the number of skipped elements written to the console is the
  length of the returned list minus the number of those rows.
\<close>

theorem returned_unfiltered:
  assumes "extractImportantElements isoNow doc = Inr out"
  shows "collect doc = Inr (returned out) \<and>
         downloadContent out =
           csvHeader @ concat (map csvRow (filter (\<lambda>r. selector_type r \<noteq> ''none'') (returned out))) \<and>
         console out ! 1 =
           ''(Skipped '' @ decimal (length (filter (\<lambda>r. selector_type r = ''none'') (returned out))) @
           '' elements that had no ID or class)'' \<and>
         int (length (returned out)) -
           int (length (filter (\<lambda>r. selector_type r \<noteq> ''none'') (returned out))) =
           int (length (filter (\<lambda>r. selector_type r = ''none'') (returned out)))"
proof -
  have len: "length (filter (\<lambda>r. selector_type r \<noteq> ''none'') ds) +
             length (filter (\<lambda>r. selector_type r = ''none'') ds) = length ds" for ds :: "elementData list"
    using sum_length_filter_compl [of "\<lambda>r. selector_type r \<noteq> ''none''" ds] by simp
  have sk: "length (returned out) - length (validElementsData (returned out)) =
            length (filter (\<lambda>r. selector_type r = ''none'') (returned out))"
    using len [of "returned out"] by (simp add: validElementsData_def)
  have "console out ! 1 =
           ''(Skipped '' @ decimal (length (filter (\<lambda>r. selector_type r = ''none'') (returned out))) @
           '' elements that had no ID or class)''"
    using extract_Inr(5) [OF assms] sk by simp
  moreover have "downloadContent out =
           csvHeader @ concat (map csvRow (filter (\<lambda>r. selector_type r \<noteq> ''none'') (returned out)))"
    using extract_Inr(2) [OF assms] by (simp add: toCsv_rows validElementsData_def)
  moreover have "int (length (returned out)) -
           int (length (filter (\<lambda>r. selector_type r \<noteq> ''none'') (returned out))) =
           int (length (filter (\<lambda>r. selector_type r = ''none'') (returned out)))"
    using len [of "returned out"] by linarith
  ultimately show ?thesis using extract_Inr(1) [OF assms] by simp
qed


theorem returned_unfiltered_witness:
  "\<exists>out. extractImportantElements exNow exPage = Inr out \<and>
     returned out = exCollected \<and>
     downloadContent out = csvHeader @ concat (map csvRow exValid) \<and>
     console out ! 1 = ''(Skipped 2 elements that had no ID or class)'' \<and>
     length exCollected = 8 \<and> length exValid = 6"
proof -
  obtain out where run: "extractImportantElements exNow exPage = Inr out"
    using extract_of_collect [OF collect_exPage] by blast
  have ret: "returned out = exCollected"
    using returned_unfiltered [OF run] collect_exPage by simp
  have two: "length (filter (\<lambda>r. selector_type r = ''none'') exCollected) = 2"
    by (simp add: exCollected_def)
  from returned_unfiltered [OF run] have
    "downloadContent out = csvHeader @ concat (map csvRow exValid)" and
    "console out ! 1 = ''(Skipped 2 elements that had no ID or class)''"
    by (simp_all add: ret filter_exCollected two decimal_2)
  moreover have "length exCollected = 8" "length exValid = 6"
    by (simp_all add: exCollected_def exValid_def)
  ultimately show ?thesis using run ret by blast
qed

end
